theory Spec2Isabelle
  imports Complex_Main "HOL-Library.Char_ord" "HOL-Library.List_Lexorder" "HOL-Library.Multiset"
begin

section \<open>Errors and formatting\<close>

text \<open>
  A Go \<open>error\<close> value. \<open>fmt.Errorf\<close> without \<open>%w\<close> gives an error that is its
  formatted text; with \<open>%w\<close> it gives an error holding the formatted text and the
  wrapped error (what \<open>errors.Unwrap\<close> returns).
\<close>

datatype error = ErrorString string | WrapError string error

fun Error_text :: "error \<Rightarrow> string" where
  "Error_text (ErrorString s) = s"
| "Error_text (WrapError s e) = s"

fun Unwrap :: "error \<Rightarrow> error option" where
  "Unwrap (ErrorString s) = None"
| "Unwrap (WrapError s e) = Some e"

text \<open>\<open>fmt.Errorf(prefix + "%w", err)\<close>.\<close>

definition Errorf_w :: "string \<Rightarrow> error \<Rightarrow> error" where
  "Errorf_w prefix e = WrapError (prefix @ Error_text e) e"

text \<open>The verb \<open>%d\<close> of \<open>fmt\<close>: an integer in decimal, with a leading minus sign.\<close>

definition digit_char :: "nat \<Rightarrow> char" where
  "digit_char d = char_of (48 + d)"

function digits :: "nat \<Rightarrow> string" where
  "digits n = (if n < 10 then [digit_char n] else digits (n div 10) @ [digit_char (n mod 10)])"
  by pat_completeness auto
termination
  by (relation "measure id") auto

declare digits.simps [simp del]

definition fmt_d :: "int \<Rightarrow> string" where
  "fmt_d i = (if i < 0 then CHR ''-'' # digits (nat (- i)) else digits (nat i))"

section \<open>The status decoder (api.go, StatusCode)\<close>

text \<open>
  \<open>type StatusCode int\<close>. The decoder only compares the code with constants, so the
  integer is modelled as \<open>int\<close>; the comparisons mean the same on Go's machine integers.
\<close>

type_synonym StatusCode = int

definition StatusCodeStartup :: string where "StatusCodeStartup = ''Startup''"
definition StatusCodeRunning :: string where "StatusCodeRunning = ''Running''"
definition StatusCodeStandby :: string where "StatusCodeStandby = ''Standby''"
definition StatusCodeBootloading :: string where "StatusCodeBootloading = ''Bootloading''"
definition StatusCodeError :: string where "StatusCodeError = ''Error''"
definition StatusCodeIdle :: string where "StatusCodeIdle = ''Idle''"
definition StatusCodeReady :: string where "StatusCodeReady = ''Ready''"
definition StatusCodeSleeping :: string where "StatusCodeSleeping = ''Sleeping''"
definition StatusCodeUnknown :: string where "StatusCodeUnknown = ''Unknown''"
definition StatusCodeInvalid :: string where "StatusCodeInvalid = ''INVALID''"

definition StatusCodes :: "string list" where
  "StatusCodes =
     [StatusCodeStartup, StatusCodeRunning, StatusCodeStandby, StatusCodeBootloading,
      StatusCodeError, StatusCodeIdle, StatusCodeReady, StatusCodeSleeping,
      StatusCodeUnknown, StatusCodeInvalid]"

definition StatusCode_String :: "StatusCode \<Rightarrow> string" where
  "StatusCode_String i =
     (if i \<ge> 0 \<and> i < 7 then StatusCodeStartup
      else if i = 7 then StatusCodeRunning
      else if i = 8 then StatusCodeStandby
      else if i = 9 then StatusCodeBootloading
      else if i = 10 then StatusCodeError
      else if i = 11 then StatusCodeIdle
      else if i = 12 then StatusCodeReady
      else if i = 13 then StatusCodeSleeping
      else if i = 255 then StatusCodeUnknown
      else StatusCodeInvalid)"

section \<open>The response envelope (api.go, Msg)\<close>

text \<open>
  \<open>Body.Data\<close> is a \<open>json.RawMessage\<close>: the bytes of the payload, not decoded.
  \<open>Head.Timestamp\<close> is never read; it is carried as the text it was decoded from.
\<close>

record Msg =
  Data :: string
  Code :: int
  Reason :: string
  UserMessage :: string
  Timestamp :: string

definition Msg_Error :: "Msg \<Rightarrow> error option" where
  "Msg_Error m =
     (if Code m = 0 then None
      else Some (ErrorString (''fronius status code='' @ fmt_d (Code m) @ '': msg='' @
                  UserMessage m @ '' reason='' @ Reason m)))"

section \<open>Values of the standard library that the client handles\<close>

text \<open>
  \<open>url.URL\<close>: the client assigns \<open>Path\<close> and \<open>RawQuery\<close> only; the other fields are
  carried as \<open>url.Parse\<close> gave them.
\<close>

record URL =
  Scheme :: string
  Opaque :: string
  Host :: string
  Path :: string
  RawQuery :: string
  Fragment :: string

text \<open>
  \<open>http.Request\<close> as far as the client sets it: the method, the address it was made
  for, and the header, where \<open>Header.Set\<close> replaces the value stored under a key.
\<close>

record Request =
  Method :: string
  RequestURL :: string
  Header :: "string \<rightharpoonup> string"

text \<open>\<open>http.Response\<close>: the numeric status, the status line and the body read in full.\<close>

record Response =
  resp_StatusCode :: int
  resp_Status :: string
  resp_Body :: string

definition StatusOK :: int where
  "StatusOK = 200"

section \<open>The records of the device API (api.go)\<close>

record InverterInfo =
  Name :: string
  CustomName :: string
  Dt :: int
  ErrorCode :: int
  PVPower :: int
  Show :: int
  StatusCode :: StatusCode
  UniqueID :: string

text \<open>
  A \<open>float64\<close> that came out of the JSON decoder is a finite number; it is modelled by
  the real number it denotes.
\<close>

record DataValue =
  Unit :: string
  Value :: real

record DeviceStatus =
  ds_ErrorCode :: int
  LEDColor :: int
  LEDState :: int
  MgmtTimerRemainingTime :: int
  StateToReset :: bool
  ds_StatusCode :: StatusCode

record InverterCommonData =
  DayEnergy :: DataValue
  DeviceStatus :: DeviceStatus
  Fac :: DataValue
  Iac :: DataValue
  Idc :: DataValue
  Pac :: DataValue
  TotalEnergy :: DataValue
  Uac :: DataValue
  Udc :: DataValue
  YearEnergy :: DataValue

record InverterThreePhaseData =
  IacL1 :: DataValue
  IacL2 :: DataValue
  IacL3 :: DataValue
  UacL1 :: DataValue
  UacL2 :: DataValue
  UacL3 :: DataValue

section \<open>The libraries the program calls\<close>

text \<open>
  What the program calls in Go's standard library is a parameter of the model: every
  theorem holds for whatever these functions compute. \<open>'w\<close> is the state of everything
  outside the process (the network, the device, the clock that ends a request at its
  deadline): a request is sent in one state of it and leaves another.

  \<^item> \<open>json_Unmarshal_inverters\<close> decodes into a \<open>map[string]*InverterInfo\<close>. The map is
    the list of its entries in the order in which the \<open>range\<close> loop will visit them
    (Go fixes no order), with \<open>None\<close> for a nil pointer (a JSON \<open>null\<close>). The keys of a
    map are distinct.
  \<^item> \<open>round64\<close> rounds a real number to the nearest \<open>float64\<close>: a floating-point
    division returns the rounded quotient.
\<close>

type_synonym 'w Client = "'w \<Rightarrow> Request \<Rightarrow> (error + Response) \<times> 'w"

record 'w lib =
  url_Parse :: "string \<Rightarrow> error + URL"
  filepath_Join :: "string \<Rightarrow> string \<Rightarrow> string"
  Values_Encode :: "(string \<times> string list) list \<Rightarrow> string"
  URL_String :: "URL \<Rightarrow> string"
  http_NewRequest :: "string \<Rightarrow> string \<Rightarrow> error + Request"
  http_DefaultClient :: "'w Client"
  json_Decode_Msg :: "string \<Rightarrow> error + Msg"
  json_Unmarshal_inverters :: "string \<Rightarrow> error + (string \<times> InverterInfo option) list"
  json_Unmarshal_common :: "string \<Rightarrow> error + InverterCommonData"
  json_Unmarshal_threephase :: "string \<Rightarrow> error + InverterThreePhaseData"
  html_UnescapeString :: "string \<Rightarrow> string"
  round64 :: "real \<Rightarrow> real"

definition float64_div :: "'w lib \<Rightarrow> real \<Rightarrow> real \<Rightarrow> real" where
  "float64_div l x y = round64 l (x / y)"

text \<open>
  \<open>sort.Slice\<close> with the comparison it is given, as an insertion sort. The standard
  library's algorithm is another one and is not stable; on a slice whose keys are
  distinct every sorting algorithm returns the same slice (\<open>sorted_by_Name_unique\<close>
  below).
\<close>

fun insert_by :: "('a \<Rightarrow> 'a \<Rightarrow> bool) \<Rightarrow> 'a \<Rightarrow> 'a list \<Rightarrow> 'a list" where
  "insert_by lt x [] = [x]"
| "insert_by lt x (y # ys) = (if lt y x then y # insert_by lt x ys else x # y # ys)"

definition sort_Slice :: "('a \<Rightarrow> 'a \<Rightarrow> bool) \<Rightarrow> 'a list \<Rightarrow> 'a list" where
  "sort_Slice lt xs = foldr (insert_by lt) xs []"

text \<open>
  \<open>strings.ToLower\<close> on ASCII text, which is all the program passes to it: the letters
  \<open>A\<close> to \<open>Z\<close> move to \<open>a\<close> to \<open>z\<close>, every other byte stays.
\<close>

definition lower_char :: "char \<Rightarrow> char" where
  "lower_char c =
     (if (65::nat) \<le> of_char c \<and> of_char c \<le> (90::nat) then char_of (of_char c + (32::nat)) else c)"

definition ToLower :: "string \<Rightarrow> string" where
  "ToLower s = map lower_char s"

section \<open>The client (api.go, Fronius)\<close>

record 'w Fronius =
  baseURL :: URL
  Client :: "'w Client"

definition NewFronius :: "'w lib \<Rightarrow> string \<Rightarrow> error + 'w Fronius" where
  "NewFronius l urlString =
     (case url_Parse l urlString of
        Inl err \<Rightarrow> Inl err
      | Inr u \<Rightarrow>
          Inr \<lparr>baseURL = u\<lparr>Path := filepath_Join l (Path u) ''solar_api/v1/''\<rparr>,
               Client = http_DefaultClient l\<rparr>)"

text \<open>
  The state a method of the client runs in: the object behind the receiver
  \<open>f *Fronius\<close>, and the world outside.
\<close>

record 'w store =
  fronius :: "'w Fronius"
  net :: 'w

text \<open>
  A call either returns or panics. Only \<open>GetInverterInfo\<close> can panic: it writes through
  the pointers of the decoded map, and a nil pointer stops the program there.
\<close>

datatype 'a outcome = Returned 'a | Panicked string

definition newRequest :: "'w lib \<Rightarrow> string \<Rightarrow> string \<Rightarrow> error + Request" where
  "newRequest l method url =
     (case http_NewRequest l method url of
        Inl err \<Rightarrow> Inl err
      | Inr req \<Rightarrow>
          Inr (req\<lparr>Header := (Header req)(''Accept'' \<mapsto> ''application/json'',
                                           ''User-Agent'' \<mapsto> ''fronius-exporter'')\<rparr>))"

text \<open>
  The loop \<open>for name, inverter := range inverters\<close> of \<open>GetInverterInfo\<close>: \<open>result\<close> is
  the slice appended to; \<open>None\<close> is the panic of the assignment through a nil pointer.
\<close>

fun range_inverters ::
  "'w lib \<Rightarrow> (string \<times> InverterInfo option) list \<Rightarrow> InverterInfo list \<Rightarrow> InverterInfo list option"
where
  "range_inverters l [] result = Some result"
| "range_inverters l ((name, None) # rest) result = None"
| "range_inverters l ((name, Some inverter) # rest) result =
     range_inverters l rest
       (result @ [inverter\<lparr>Name := name,
                           CustomName := html_UnescapeString l (CustomName inverter)\<rparr>])"

definition nil_dereference :: string where
  "nil_dereference = ''runtime error: invalid memory address or nil pointer dereference''"

definition GetInverterInfo ::
  "'w lib \<Rightarrow> 'w store \<Rightarrow> (error + InverterInfo list) outcome \<times> 'w store"
where
  "GetInverterInfo l s =
     (let f = fronius s;
          u = baseURL f;
          u = u\<lparr>Path := filepath_Join l (Path u) ''GetInverterInfo.cgi''\<rparr>;
          u = u\<lparr>RawQuery := Values_Encode l [(''DeviceClass'', [''System''])]\<rparr>
      in case newRequest l ''GET'' (URL_String l u) of
           Inl err \<Rightarrow> (Returned (Inl err), s)
         | Inr req \<Rightarrow>
             (case Client f (net s) req of
                (Inl err, w) \<Rightarrow> (Returned (Inl err), s\<lparr>net := w\<rparr>)
              | (Inr resp, w) \<Rightarrow>
                  (if resp_StatusCode resp \<noteq> StatusOK
                   then (Returned (Inl (ErrorString (''unexpected http status: '' @ resp_Status resp))),
                         s\<lparr>net := w\<rparr>)
                   else
                     (case json_Decode_Msg l (resp_Body resp) of
                        Inl err \<Rightarrow>
                          (Returned (Inl (Errorf_w ''error parsing json message: '' err)), s\<lparr>net := w\<rparr>)
                      | Inr msg \<Rightarrow>
                          (case Msg_Error msg of
                             Some err \<Rightarrow> (Returned (Inl err), s\<lparr>net := w\<rparr>)
                           | None \<Rightarrow>
                               (case json_Unmarshal_inverters l (Data msg) of
                                  Inl err \<Rightarrow> (Returned (Inl err), s\<lparr>net := w\<rparr>)
                                | Inr inverters \<Rightarrow>
                                    (case range_inverters l inverters [] of
                                       None \<Rightarrow> (Panicked nil_dereference, s\<lparr>net := w\<rparr>)
                                     | Some result \<Rightarrow>
                                         (Returned (Inr (sort_Slice (\<lambda>a b. Name a < Name b) result)),
                                          s\<lparr>net := w\<rparr>))))))))"

definition GetRealtimeInverterRealtimeData ::
  "'w lib \<Rightarrow> string \<Rightarrow> string \<Rightarrow> string \<Rightarrow> 'w store \<Rightarrow> (error + string) \<times> 'w store"
where
  "GetRealtimeInverterRealtimeData l scope dataCollection deviceID s =
     (let f = fronius s;
          u = baseURL f;
          u = u\<lparr>Path := filepath_Join l (Path u) ''GetInverterRealtimeData.cgi''\<rparr>;
          u = u\<lparr>RawQuery := Values_Encode l
                 [(''Scope'', [scope]), (''DataCollection'', [dataCollection]),
                  (''DeviceId'', [deviceID])]\<rparr>
      in case newRequest l ''GET'' (URL_String l u) of
           Inl err \<Rightarrow> (Inl err, s)
         | Inr req \<Rightarrow>
             (case Client f (net s) req of
                (Inl err, w) \<Rightarrow> (Inl err, s\<lparr>net := w\<rparr>)
              | (Inr resp, w) \<Rightarrow>
                  (if resp_StatusCode resp \<noteq> StatusOK
                   then (Inl (ErrorString (''unexpected http status: '' @ resp_Status resp)),
                         s\<lparr>net := w\<rparr>)
                   else
                     (case json_Decode_Msg l (resp_Body resp) of
                        Inl err \<Rightarrow>
                          (Inl (Errorf_w ''error parsing json message: '' err), s\<lparr>net := w\<rparr>)
                      | Inr msg \<Rightarrow>
                          (case Msg_Error msg of
                             Some err \<Rightarrow> (Inl err, s\<lparr>net := w\<rparr>)
                           | None \<Rightarrow> (Inr (Data msg), s\<lparr>net := w\<rparr>))))))"

definition GetInverterRealtimeCommonData ::
  "'w lib \<Rightarrow> string \<Rightarrow> 'w store \<Rightarrow> (error + InverterCommonData) \<times> 'w store"
where
  "GetInverterRealtimeCommonData l deviceID s =
     (case GetRealtimeInverterRealtimeData l ''Device'' ''CommonInverterData'' deviceID s of
        (Inl err, s') \<Rightarrow> (Inl err, s')
      | (Inr data, s') \<Rightarrow>
          (case json_Unmarshal_common l data of
             Inl err \<Rightarrow> (Inl (Errorf_w ''unable to parse inverter common data: '' err), s')
           | Inr commonData \<Rightarrow> (Inr commonData, s')))"

definition GetInverterRealtimeThreePhaseData ::
  "'w lib \<Rightarrow> string \<Rightarrow> 'w store \<Rightarrow> (error + InverterThreePhaseData) \<times> 'w store"
where
  "GetInverterRealtimeThreePhaseData l deviceID s =
     (case GetRealtimeInverterRealtimeData l ''Device'' ''3PInverterData'' deviceID s of
        (Inl err, s') \<Rightarrow> (Inl err, s')
      | (Inr data, s') \<Rightarrow>
          (case json_Unmarshal_threephase l data of
             Inl err \<Rightarrow> (Inl (Errorf_w ''unable to parse inverter three phase data: '' err), s')
           | Inr threePhaseData \<Rightarrow> (Inr threePhaseData, s')))"

section \<open>Metrics (the Prometheus client library, as the collector uses it)\<close>

text \<open>
  \<open>utf8.ValidString\<close>: the byte sequences that are well-formed UTF-8. The second byte
  of a sequence has a range of its own after the first bytes \<open>E0\<close>, \<open>ED\<close>, \<open>F0\<close> and
  \<open>F4\<close>; every later byte is a continuation byte (\<open>80\<close> to \<open>BF\<close>).
\<close>

definition byte :: "char \<Rightarrow> nat" where
  "byte c = of_char c"

definition continuation :: "nat \<Rightarrow> bool" where
  "continuation b = (128 \<le> b \<and> b \<le> 191)"

definition accept_second :: "nat \<Rightarrow> nat \<Rightarrow> bool" where
  "accept_second b0 b1 =
     (if b0 = 224 then 160 \<le> b1 \<and> b1 \<le> 191
      else if b0 = 237 then 128 \<le> b1 \<and> b1 \<le> 159
      else if b0 = 240 then 144 \<le> b1 \<and> b1 \<le> 191
      else if b0 = 244 then 128 \<le> b1 \<and> b1 \<le> 143
      else continuation b1)"

fun ValidString :: "string \<Rightarrow> bool" where
  "ValidString [] = True"
| "ValidString (c0 # rest) =
     (if byte c0 < 128 then ValidString rest
      else if byte c0 < 194 \<or> 244 < byte c0 then False
      else
        (case rest of
           [] \<Rightarrow> False
         | c1 # rest1 \<Rightarrow>
             (if \<not> accept_second (byte c0) (byte c1) then False
              else if byte c0 < 224 then ValidString rest1
              else
                (case rest1 of
                   [] \<Rightarrow> False
                 | c2 # rest2 \<Rightarrow>
                     (if \<not> continuation (byte c2) then False
                      else if byte c0 < 240 then ValidString rest2
                      else
                        (case rest2 of
                           [] \<Rightarrow> False
                         | c3 # rest3 \<Rightarrow>
                             (if \<not> continuation (byte c3) then False
                              else ValidString rest3)))))))"

text \<open>
  A descriptor (\<open>prometheus.NewDesc\<close> with no constant labels), a kind of value, and a
  metric with a constant value. \<open>NewConstMetric\<close> refuses label values that are not as
  many as the descriptor's label names, and label values that are not valid UTF-8; the
  text of its errors is abbreviated here. Sending on the channel \<open>ch\<close> appends to the
  list of what was sent.
\<close>

record Desc =
  fqName :: string
  help_text :: string
  variableLabels :: "string list"

datatype ValueType = CounterValue | GaugeValue | UntypedValue

record Metric =
  desc :: Desc
  valType :: ValueType
  val :: real
  labelValues :: "string list"

definition NewConstMetric :: "Desc \<Rightarrow> ValueType \<Rightarrow> real \<Rightarrow> string list \<Rightarrow> error + Metric" where
  "NewConstMetric d valueType v lvs =
     (if length lvs \<noteq> length (variableLabels d)
      then Inl (ErrorString ''inconsistent label cardinality'')
      else if \<not> list_all ValidString lvs
      then Inl (ErrorString ''label value is not valid UTF-8'')
      else Inr \<lparr>desc = d, valType = valueType, val = v, labelValues = lvs\<rparr>)"

section \<open>The collector (main.go)\<close>

text \<open>
  The collector's field \<open>api\<close> points to the client, which is in the state the
  collector runs in (\<open>st\<close>); its other fields are the eight descriptors.
\<close>

record collector =
  inverterInfo :: Desc
  inverterStatus :: Desc
  inverterTotalEnergy :: Desc
  inverterDCVoltage :: Desc
  inverterDCCurrent :: Desc
  inverterACFrequency :: Desc
  inverterACVoltage :: Desc
  inverterACCurrent :: Desc

definition newCollector :: collector where
  "newCollector =
     \<lparr>inverterInfo =
        \<lparr>fqName = ''fronius_inverter_info'', help_text = ''Information about the inverter'',
         variableLabels = [''device_id'', ''device_type'', ''device_name'', ''serial'']\<rparr>,
      inverterStatus =
        \<lparr>fqName = ''fronius_inverter_status'', help_text = ''Status of the inverter'',
         variableLabels = [''device_id'', ''status'']\<rparr>,
      inverterTotalEnergy =
        \<lparr>fqName = ''inverter_yield_total'', help_text = ''Information about the inverter'',
         variableLabels = [''device_id'']\<rparr>,
      inverterDCVoltage =
        \<lparr>fqName = ''inverter_dc_voltage'', help_text = ''Solar panel (DC) voltage'',
         variableLabels = [''device_id'']\<rparr>,
      inverterDCCurrent =
        \<lparr>fqName = ''inverter_dc_current'', help_text = ''Solar panel (DC) current'',
         variableLabels = [''device_id'']\<rparr>,
      inverterACFrequency =
        \<lparr>fqName = ''inverter_grid_frequency'', help_text = ''Grid (AC) frequency'',
         variableLabels = [''device_id'']\<rparr>,
      inverterACVoltage =
        \<lparr>fqName = ''inverter_grid_voltage'', help_text = ''Grid (AC) current'',
         variableLabels = [''device_id'', ''phase'']\<rparr>,
      inverterACCurrent =
        \<lparr>fqName = ''inverter_grid_current'', help_text = ''Grid (AC) current'',
         variableLabels = [''device_id'', ''phase'']\<rparr>\<rparr>"

text \<open>
  The state of one collection: the client and the world (\<open>st\<close>), what was sent on the
  channel (\<open>ch\<close>, oldest first), and what was logged (\<open>logged\<close>: the error and the
  message of each \<open>log.Err(err).Msg(...)\<close>).
\<close>

record 'w cstate =
  st :: "'w store"
  ch :: "Metric list"
  logged :: "(error \<times> string) list"

definition send :: "Metric \<Rightarrow> 'w cstate \<Rightarrow> 'w cstate" where
  "send m s = s\<lparr>ch := ch s @ [m]\<rparr>"

definition log_Err :: "error \<Rightarrow> string \<Rightarrow> 'w cstate \<Rightarrow> 'w cstate" where
  "log_Err err msg s = s\<lparr>logged := logged s @ [(err, msg)]\<rparr>"

text \<open>The loop \<open>for _, status := range api.StatusCodes()\<close> of \<open>collectInverters\<close>.\<close>

fun status_loop :: "collector \<Rightarrow> InverterInfo \<Rightarrow> string list \<Rightarrow> 'w cstate \<Rightarrow> 'w cstate" where
  "status_loop c inverter [] s = s"
| "status_loop c inverter (status # rest) s =
     (let value = (if StatusCode_String (StatusCode inverter) = status then 1 else 0)
      in case NewConstMetric (inverterStatus c) GaugeValue value
                [Name inverter, ToLower status] of
           Inl err \<Rightarrow>
             status_loop c inverter rest
               (log_Err err ''unable to generate metrics for inverter status'' s)
         | Inr m \<Rightarrow> status_loop c inverter rest (send m s))"

text \<open>
  The loop \<open>for _, inverter := range inverters\<close>: \<open>ids\<close> is the slice appended to. When
  the info metric is refused, \<open>continue\<close> goes to the next inverter.
\<close>

fun inverter_loop ::
  "collector \<Rightarrow> InverterInfo list \<Rightarrow> string list \<Rightarrow> 'w cstate \<Rightarrow> string list \<times> 'w cstate"
where
  "inverter_loop c [] ids s = (ids, s)"
| "inverter_loop c (inverter # rest) ids s =
     (let ids = ids @ [Name inverter]
      in case NewConstMetric (inverterInfo c) GaugeValue 1
                [Name inverter, fmt_d (Dt inverter), CustomName inverter, UniqueID inverter] of
           Inl err \<Rightarrow>
             inverter_loop c rest ids
               (log_Err err ''unable to generate metrics for inverter info'' s)
         | Inr m \<Rightarrow> inverter_loop c rest ids (status_loop c inverter StatusCodes (send m s)))"

definition collectInverters ::
  "'w lib \<Rightarrow> collector \<Rightarrow> 'w cstate \<Rightarrow> (string list \<times> 'w cstate) outcome"
where
  "collectInverters l c s =
     (case GetInverterInfo l (st s) of
        (Panicked p, st') \<Rightarrow> Panicked p
      | (Returned (Inl err), st') \<Rightarrow>
          Returned ([], log_Err err ''unable to get inverter info'' (s\<lparr>st := st'\<rparr>))
      | (Returned (Inr inverters), st') \<Rightarrow>
          Returned (inverter_loop c inverters [] (s\<lparr>st := st'\<rparr>)))"

definition collectCommonInverterData ::
  "'w lib \<Rightarrow> collector \<Rightarrow> string \<Rightarrow> 'w cstate \<Rightarrow> 'w cstate"
where
  "collectCommonInverterData l c id' s =
     (case GetInverterRealtimeCommonData l id' (st s) of
        (Inl err, st') \<Rightarrow> log_Err err ''unable to get common data for inverter'' (s\<lparr>st := st'\<rparr>)
      | (Inr data, st') \<Rightarrow>
          (let s = s\<lparr>st := st'\<rparr>
           in case NewConstMetric (inverterTotalEnergy c) CounterValue
                     (float64_div l (Value (TotalEnergy data)) 1000) [id'] of
                Inl err \<Rightarrow> log_Err err ''unable to generate metrics for inverter total energy'' s
              | Inr m \<Rightarrow>
                  (let s = send m s
                   in case NewConstMetric (inverterDCVoltage c) GaugeValue (Value (Udc data)) [id'] of
                        Inl err \<Rightarrow>
                          log_Err err ''unable to generate metrics for inverter dc voltage'' s
                      | Inr m \<Rightarrow>
                          (let s = send m s
                           in case NewConstMetric (inverterDCCurrent c) GaugeValue
                                     (Value (Idc data)) [id'] of
                                Inl err \<Rightarrow>
                                  log_Err err ''unable to generate metrics for inverter dc current'' s
                              | Inr m \<Rightarrow>
                                  (let s = send m s
                                   in case NewConstMetric (inverterACFrequency c) GaugeValue
                                             (Value (Fac data)) [id'] of
                                        Inl err \<Rightarrow>
                                          log_Err err
                                            ''unable to generate metrics for inverter grid frequency'' s
                                      | Inr m \<Rightarrow> send m s)))))"

text \<open>
  The loop of \<open>collectThreePhaseInverterData\<close> over the six rows (descriptor, data,
  phase): a refused metric ends the function.
\<close>

fun phase_loop :: "string \<Rightarrow> (Desc \<times> DataValue \<times> string) list \<Rightarrow> 'w cstate \<Rightarrow> 'w cstate" where
  "phase_loop id' [] s = s"
| "phase_loop id' ((x_desc, x_data, x_value) # rest) s =
     (case NewConstMetric x_desc GaugeValue (Value x_data) [id', x_value] of
        Inl err \<Rightarrow>
          log_Err err
            ''unable to generate metrics for grid voltage/phaseinverter total energy'' s
      | Inr m \<Rightarrow> phase_loop id' rest (send m s))"

definition collectThreePhaseInverterData ::
  "'w lib \<Rightarrow> collector \<Rightarrow> string \<Rightarrow> 'w cstate \<Rightarrow> 'w cstate"
where
  "collectThreePhaseInverterData l c id' s =
     (case GetInverterRealtimeThreePhaseData l id' (st s) of
        (Inl err, st') \<Rightarrow>
          log_Err err ''unable to get three phase data for inverter'' (s\<lparr>st := st'\<rparr>)
      | (Inr data, st') \<Rightarrow>
          phase_loop id'
            [(inverterACVoltage c, UacL1 data, ''L1''),
             (inverterACVoltage c, UacL2 data, ''L2''),
             (inverterACVoltage c, UacL3 data, ''L3''),
             (inverterACCurrent c, IacL1 data, ''L1''),
             (inverterACCurrent c, IacL2 data, ''L2''),
             (inverterACCurrent c, IacL3 data, ''L3'')]
            (s\<lparr>st := st'\<rparr>))"

text \<open>The loop \<open>for _, id := range ids\<close> of \<open>Collect\<close>.\<close>

fun ids_loop :: "'w lib \<Rightarrow> collector \<Rightarrow> string list \<Rightarrow> 'w cstate \<Rightarrow> 'w cstate" where
  "ids_loop l c [] s = s"
| "ids_loop l c (id' # rest) s =
     ids_loop l c rest (collectThreePhaseInverterData l c id' (collectCommonInverterData l c id' s))"

definition Collect :: "'w lib \<Rightarrow> collector \<Rightarrow> 'w cstate \<Rightarrow> 'w cstate outcome" where
  "Collect l c s =
     (case collectInverters l c s of
        Panicked p \<Rightarrow> Panicked p
      | Returned (ids, s') \<Rightarrow> Returned (ids_loop l c ids s'))"

section \<open>What the claims speak of\<close>

text \<open>
  The addresses the two requests of the client are made for, as the source builds them
  from the base URL.
\<close>

definition info_url :: "'w lib \<Rightarrow> 'w Fronius \<Rightarrow> string" where
  "info_url l f =
     URL_String l
       ((baseURL f)\<lparr>Path := filepath_Join l (Path (baseURL f)) ''GetInverterInfo.cgi'',
                    RawQuery := Values_Encode l [(''DeviceClass'', [''System''])]\<rparr>)"

definition realtime_url :: "'w lib \<Rightarrow> 'w Fronius \<Rightarrow> string \<Rightarrow> string \<Rightarrow> string \<Rightarrow> string" where
  "realtime_url l f scope dataCollection deviceID =
     URL_String l
       ((baseURL f)\<lparr>Path := filepath_Join l (Path (baseURL f)) ''GetInverterRealtimeData.cgi'',
                    RawQuery := Values_Encode l
                      [(''Scope'', [scope]), (''DataCollection'', [dataCollection]),
                       (''DeviceId'', [deviceID])]\<rparr>)"

text \<open>
  \<open>envelope_received l s url m w\<close>: in the state \<open>s\<close>, the request for \<open>url\<close> can be
  made, the client answers it with the HTTP status 200 and a body that decodes to the
  envelope \<open>m\<close>, and the world is \<open>w\<close> afterwards.
\<close>

definition envelope_received :: "'w lib \<Rightarrow> 'w store \<Rightarrow> string \<Rightarrow> Msg \<Rightarrow> 'w \<Rightarrow> bool" where
  "envelope_received l s url m w =
     (case newRequest l ''GET'' url of
        Inl err \<Rightarrow> False
      | Inr req \<Rightarrow>
          (case Client (fronius s) (net s) req of
             (Inl err, w') \<Rightarrow> False
           | (Inr resp, w') \<Rightarrow>
               w' = w \<and> resp_StatusCode resp = StatusOK \<and>
               json_Decode_Msg l (resp_Body resp) = Inr m))"

text \<open>The text of the error that \<open>Msg.Error\<close> makes of an envelope.\<close>

definition status_error_text :: "Msg \<Rightarrow> string" where
  "status_error_text m =
     ''fronius status code='' @ fmt_d (Code m) @ '': msg='' @ UserMessage m @
     '' reason='' @ Reason m"

text \<open>
  An entry of the inventory mapping as a record of the result: the key is the record's
  \<open>Name\<close>, the display name is unescaped.
\<close>

definition named :: "'w lib \<Rightarrow> string \<times> InverterInfo \<Rightarrow> InverterInfo" where
  "named l e =
     (snd e)\<lparr>Name := fst e, CustomName := html_UnescapeString l (CustomName (snd e))\<rparr>"

text \<open>A mapping without nil pointers, given by its entries.\<close>

definition entries_map :: "(string \<times> InverterInfo) list \<Rightarrow> (string \<times> InverterInfo option) list" where
  "entries_map entries = map (\<lambda>e. (fst e, Some (snd e))) entries"

text \<open>The metric records that the claims expect of the collector.\<close>

definition info_metric :: "InverterInfo \<Rightarrow> Metric" where
  "info_metric d =
     \<lparr>desc = inverterInfo newCollector, valType = GaugeValue, val = 1,
      labelValues = [Name d, fmt_d (Dt d), CustomName d, UniqueID d]\<rparr>"

definition status_metric :: "InverterInfo \<Rightarrow> string \<Rightarrow> Metric" where
  "status_metric d status =
     \<lparr>desc = inverterStatus newCollector, valType = GaugeValue,
      val = (if StatusCode_String (StatusCode d) = status then 1 else 0),
      labelValues = [Name d, ToLower status]\<rparr>"

definition inventory_metrics :: "InverterInfo \<Rightarrow> Metric list" where
  "inventory_metrics d = info_metric d # map (status_metric d) StatusCodes"

definition common_metrics :: "'w lib \<Rightarrow> string \<Rightarrow> InverterCommonData \<Rightarrow> Metric list" where
  "common_metrics l id' data =
     [\<lparr>desc = inverterTotalEnergy newCollector, valType = CounterValue,
       val = round64 l (Value (TotalEnergy data) / 1000), labelValues = [id']\<rparr>,
      \<lparr>desc = inverterDCVoltage newCollector, valType = GaugeValue,
       val = Value (Udc data), labelValues = [id']\<rparr>,
      \<lparr>desc = inverterDCCurrent newCollector, valType = GaugeValue,
       val = Value (Idc data), labelValues = [id']\<rparr>,
      \<lparr>desc = inverterACFrequency newCollector, valType = GaugeValue,
       val = Value (Fac data), labelValues = [id']\<rparr>]"

definition threephase_metrics :: "string \<Rightarrow> InverterThreePhaseData \<Rightarrow> Metric list" where
  "threephase_metrics id' data =
     [\<lparr>desc = inverterACVoltage newCollector, valType = GaugeValue,
       val = Value (UacL1 data), labelValues = [id', ''L1'']\<rparr>,
      \<lparr>desc = inverterACVoltage newCollector, valType = GaugeValue,
       val = Value (UacL2 data), labelValues = [id', ''L2'']\<rparr>,
      \<lparr>desc = inverterACVoltage newCollector, valType = GaugeValue,
       val = Value (UacL3 data), labelValues = [id', ''L3'']\<rparr>,
      \<lparr>desc = inverterACCurrent newCollector, valType = GaugeValue,
       val = Value (IacL1 data), labelValues = [id', ''L1'']\<rparr>,
      \<lparr>desc = inverterACCurrent newCollector, valType = GaugeValue,
       val = Value (IacL2 data), labelValues = [id', ''L2'']\<rparr>,
      \<lparr>desc = inverterACCurrent newCollector, valType = GaugeValue,
       val = Value (IacL3 data), labelValues = [id', ''L3'']\<rparr>]"

text \<open>The label values of a device are valid UTF-8, as every string is that Go's JSON
  decoder returns.\<close>

definition labels_valid :: "InverterInfo \<Rightarrow> bool" where
  "labels_valid d = (ValidString (Name d) \<and> ValidString (CustomName d) \<and> ValidString (UniqueID d))"

text \<open>
  The results of the detail calls of one collection, in the order in which \<open>Collect\<close>
  makes them: for each device key the result of the common-data call and of the
  three-phase call, each made in the world the call before it left.
\<close>

fun detail_calls ::
  "'w lib \<Rightarrow> string list \<Rightarrow> 'w store \<Rightarrow>
   (string \<times> (error + InverterCommonData) \<times> (error + InverterThreePhaseData)) list"
where
  "detail_calls l [] s = []"
| "detail_calls l (id' # rest) s =
     (case GetInverterRealtimeCommonData l id' s of
        (rc, s1) \<Rightarrow>
          (case GetInverterRealtimeThreePhaseData l id' s1 of
             (rt, s2) \<Rightarrow> (id', rc, rt) # detail_calls l rest s2))"

text \<open>What one device's two results contribute: nothing for a failed call.\<close>

definition detail_metrics ::
  "'w lib \<Rightarrow> string \<times> (error + InverterCommonData) \<times> (error + InverterThreePhaseData) \<Rightarrow> Metric list"
where
  "detail_metrics l r =
     (case fst (snd r) of Inl err \<Rightarrow> [] | Inr data \<Rightarrow> common_metrics l (fst r) data) @
     (case snd (snd r) of Inl err \<Rightarrow> [] | Inr data \<Rightarrow> threephase_metrics (fst r) data)"

text \<open>A status record of a device: the status descriptor, labelled with the device key.\<close>

definition is_status_of :: "InverterInfo \<Rightarrow> Metric \<Rightarrow> bool" where
  "is_status_of d m = (desc m = inverterStatus newCollector \<and> hd (labelValues m) = Name d)"

text \<open>A sequence of calls of the client's operations, run one after the other.\<close>

datatype call =
  CallInverterInfo
| CallRealtimeData string string string
| CallCommonData string
| CallThreePhaseData string

fun run_call :: "'w lib \<Rightarrow> call \<Rightarrow> 'w store \<Rightarrow> 'w store" where
  "run_call l CallInverterInfo s = snd (GetInverterInfo l s)"
| "run_call l (CallRealtimeData scope dataCollection deviceID) s =
     snd (GetRealtimeInverterRealtimeData l scope dataCollection deviceID s)"
| "run_call l (CallCommonData deviceID) s = snd (GetInverterRealtimeCommonData l deviceID s)"
| "run_call l (CallThreePhaseData deviceID) s =
     snd (GetInverterRealtimeThreePhaseData l deviceID s)"

fun run_calls :: "'w lib \<Rightarrow> call list \<Rightarrow> 'w store \<Rightarrow> 'w store" where
  "run_calls l [] s = s"
| "run_calls l (c # cs) s = run_calls l cs (run_call l c s)"

section \<open>A device to run the model on\<close>

text \<open>
  Concrete values for the parameters of the model, so that the theorems below can be
  run on an input: a client that records the requests it is given (the world is the
  list of the requests made so far) and answers each from a table, toy versions of the
  library functions, and three inverters.
\<close>

definition recording :: "(Request \<Rightarrow> error + Response) \<Rightarrow> Request list Client" where
  "recording answer w req = (answer req, w @ [req])"

text \<open>Replaces every \<open>&amp;\<close> by \<open>&\<close>, as \<open>html.UnescapeString\<close> does among much else.\<close>

function unescape_amp :: "string \<Rightarrow> string" where
  "unescape_amp [] = []"
| "unescape_amp (c # r) =
     (if c = CHR ''&'' \<and> take 4 r = ''amp;'' then CHR ''&'' # unescape_amp (drop 4 r)
      else c # unescape_amp r)"
  by pat_completeness auto
termination
  by (relation "measure length") auto

definition test_decode_msg :: "string \<Rightarrow> error + Msg" where
  "test_decode_msg body =
     (case body of
        [] \<Rightarrow> Inl (ErrorString ''EOF'')
      | c # d \<Rightarrow>
          Inr \<lparr>Data = d, Code = (if c = CHR ''0'' then 0 else 255), Reason = ''r'',
               UserMessage = ''u'', Timestamp = []\<rparr>)"

definition inverter_1 :: InverterInfo where
  "inverter_1 =
     \<lparr>Name = [], CustomName = ''East &amp; West'', Dt = 232, ErrorCode = 0, PVPower = 5000,
      Show = 1, StatusCode = 7, UniqueID = ''1234567''\<rparr>"

definition inverter_2 :: InverterInfo where
  "inverter_2 =
     \<lparr>Name = [], CustomName = ''garage'', Dt = 232, ErrorCode = 0, PVPower = 3000,
      Show = 1, StatusCode = 14, UniqueID = ''7654321''\<rparr>"

definition inverter_3 :: InverterInfo where
  "inverter_3 =
     \<lparr>Name = [], CustomName = ''&amp;'', Dt = 99, ErrorCode = 0, PVPower = 0,
      Show = 0, StatusCode = 3, UniqueID = ''555''\<rparr>"

definition measured :: "string \<Rightarrow> real \<Rightarrow> DataValue" where
  "measured u v = \<lparr>Unit = u, Value = v\<rparr>"

definition common_1 :: InverterCommonData where
  "common_1 =
     \<lparr>DayEnergy = measured ''Wh'' 1393,
      DeviceStatus = \<lparr>ds_ErrorCode = 0, LEDColor = 2, LEDState = 0, MgmtTimerRemainingTime = -1,
                      StateToReset = False, ds_StatusCode = 7\<rparr>,
      Fac = measured ''Hz'' (4997 / 100), Iac = measured ''A'' (57 / 100),
      Idc = measured ''A'' (97 / 100), Pac = measured ''W'' 84,
      TotalEnergy = measured ''Wh'' 234611600, Uac = measured ''V'' (2362 / 10),
      Udc = measured ''V'' (6369 / 10), YearEnergy = measured ''Wh'' 1897062\<rparr>"

definition threephase_1 :: InverterThreePhaseData where
  "threephase_1 =
     \<lparr>IacL1 = measured ''A'' (57 / 100), IacL2 = measured ''A'' (71 / 100),
      IacL3 = measured ''A'' (72 / 100), UacL1 = measured ''V'' (2362 / 10),
      UacL2 = measured ''V'' (2349 / 10), UacL3 = measured ''V'' (2364 / 10)\<rparr>"

text \<open>
  What Go's \<open>json.Unmarshal\<close> makes of the JSON object \<open>{}\<close>: it sets no field and
  returns no error, so the record keeps the zero value of every field.
\<close>

definition zero_common :: InverterCommonData where
  "zero_common =
     \<lparr>DayEnergy = measured [] 0,
      DeviceStatus = \<lparr>ds_ErrorCode = 0, LEDColor = 0, LEDState = 0, MgmtTimerRemainingTime = 0,
                      StateToReset = False, ds_StatusCode = 0\<rparr>,
      Fac = measured [] 0, Iac = measured [] 0, Idc = measured [] 0, Pac = measured [] 0,
      TotalEnergy = measured [] 0, Uac = measured [] 0, Udc = measured [] 0,
      YearEnergy = measured [] 0\<rparr>"

definition test_lib ::
  "(Request \<Rightarrow> error + Response) \<Rightarrow> (string \<times> InverterInfo option) list \<Rightarrow> Request list lib"
where
  "test_lib answer inventory =
     \<lparr>url_Parse = (\<lambda>u. Inr \<lparr>Scheme = ''http'', Opaque = [], Host = u, Path = [], RawQuery = [],
                              Fragment = []\<rparr>),
      filepath_Join = (\<lambda>a b. a @ ''/'' @ b),
      Values_Encode = (\<lambda>kvs. concat (map (\<lambda>kv. fst kv @ ''='' @ concat (snd kv) @ ''&'') kvs)),
      URL_String = (\<lambda>u. Path u @ ''?'' @ RawQuery u),
      http_NewRequest = (\<lambda>m u. Inr \<lparr>Method = m, RequestURL = u, Header = Map.empty\<rparr>),
      http_DefaultClient = recording answer,
      json_Decode_Msg = test_decode_msg,
      json_Unmarshal_inverters =
        (\<lambda>d. if d = ''I'' then Inr inventory else Inl (ErrorString ''cannot unmarshal'')),
      json_Unmarshal_common =
        (\<lambda>d. if d = ''C'' then Inr common_1
             else if d = ''{}'' then Inr zero_common
             else Inl (ErrorString ''cannot unmarshal'')),
      json_Unmarshal_threephase =
        (\<lambda>d. if d = ''T'' then Inr threephase_1 else Inl (ErrorString ''cannot unmarshal'')),
      html_UnescapeString = unescape_amp,
      round64 = (\<lambda>x. x)\<rparr>"

definition ok_response :: "string \<Rightarrow> error + Response" where
  "ok_response body = Inr \<lparr>resp_StatusCode = 200, resp_Status = ''200 OK'', resp_Body = body\<rparr>"

text \<open>
  A device that answers the inventory request and the two detail requests for the
  device \<open>1\<close>; every other request ends in a network error.
\<close>

definition device_answer :: "Request \<Rightarrow> error + Response" where
  "device_answer req =
     (if RequestURL req = ''/solar_api/v1//GetInverterInfo.cgi?DeviceClass=System&''
      then ok_response ''0I''
      else if RequestURL req =
        ''/solar_api/v1//GetInverterRealtimeData.cgi?Scope=Device&DataCollection=CommonInverterData&DeviceId=1&''
      then ok_response ''0C''
      else if RequestURL req =
        ''/solar_api/v1//GetInverterRealtimeData.cgi?Scope=Device&DataCollection=3PInverterData&DeviceId=1&''
      then ok_response ''0T''
      else Inl (ErrorString ''context deadline exceeded''))"

text \<open>A device that answers every request with an envelope of status code 255.\<close>

definition faulty_answer :: "Request \<Rightarrow> error + Response" where
  "faulty_answer req = ok_response ''EX''"

text \<open>A device that answers the common-data request with a payload of the wrong shape.\<close>

definition misshapen_answer :: "Request \<Rightarrow> error + Response" where
  "misshapen_answer req = ok_response ''0X''"

definition error_envelope :: Msg where
  "error_envelope = \<lparr>Data = ''X'', Code = 255, Reason = ''r'', UserMessage = ''u'', Timestamp = []\<rparr>"

text \<open>The request the client makes for an address.\<close>

definition get_request :: "string \<Rightarrow> Request" where
  "get_request url =
     \<lparr>Method = ''GET'', RequestURL = url,
      Header = [''Accept'' \<mapsto> ''application/json'', ''User-Agent'' \<mapsto> ''fronius-exporter'']\<rparr>"

text \<open>A device that answers the common-data request with the empty object \<open>{}\<close>.\<close>

definition empty_object_answer :: "Request \<Rightarrow> error + Response" where
  "empty_object_answer req = ok_response ''0{}''"

definition test_store ::
  "(Request \<Rightarrow> error + Response) \<Rightarrow> (string \<times> InverterInfo option) list \<Rightarrow> Request list store"
where
  "test_store answer inventory =
     \<lparr>fronius =
        \<lparr>baseURL = \<lparr>Scheme = ''http'', Opaque = [], Host = ''inverter'', Path = ''/solar_api/v1/'',
                     RawQuery = [], Fragment = []\<rparr>,
         Client = recording answer\<rparr>,
      net = []\<rparr>"

definition test_state ::
  "(Request \<Rightarrow> error + Response) \<Rightarrow> (string \<times> InverterInfo option) list \<Rightarrow> Request list cstate"
where
  "test_state answer inventory = \<lparr>st = test_store answer inventory, ch = [], logged = []\<rparr>"

definition three_inverters :: "(string \<times> InverterInfo) list" where
  "three_inverters = [(''3'', inverter_3), (''1'', inverter_1), (''2'', inverter_2)]"

text \<open>An inventory mapping whose entry for the key \<open>2\<close> is a JSON \<open>null\<close>.\<close>

definition null_entry_inventory :: "(string \<times> InverterInfo option) list" where
  "null_entry_inventory = [(''1'', Some inverter_1), (''2'', None)]"

definition two_inverters :: "(string \<times> InverterInfo) list" where
  "two_inverters = [(''2'', inverter_2), (''1'', inverter_1)]"

section \<open>Lemmas: sorting, the client, the loops of the collector\<close>

lemmas StatusCode_names =
  StatusCodeStartup_def StatusCodeRunning_def StatusCodeStandby_def
  StatusCodeBootloading_def StatusCodeError_def StatusCodeIdle_def StatusCodeReady_def
  StatusCodeSleeping_def StatusCodeUnknown_def StatusCodeInvalid_def

lemma insert_by_insort_key: "insert_by (\<lambda>a b. f a < f b) x ys = insort_key f x ys"
  by (induction ys) auto

lemma sort_Slice_sort_key: "sort_Slice (\<lambda>a b. f a < f b) xs = sort_key f xs"
  by (induction xs) (simp_all add: sort_Slice_def insert_by_insort_key sort_key_def)

lemma range_inverters_entries:
  "range_inverters l (entries_map entries) acc = Some (acc @ map (named l) entries)"
  by (induction entries arbitrary: acc) (simp_all add: entries_map_def named_def)

lemma filter_key_distinct:
  "distinct (map f xs) \<Longrightarrow> k \<in> set xs \<Longrightarrow> filter (\<lambda>x. f k = f x) xs = [k]"
proof (induction xs)
  case Nil
  then show ?case by simp
next
  case (Cons a xs)
  show ?case
  proof (cases "a = k")
    case True
    with Cons.prems have "\<forall>x\<in>set xs. f k \<noteq> f x" by auto
    then have "filter (\<lambda>x. f k = f x) xs = []" by (simp add: filter_empty_conv)
    with True show ?thesis by simp
  next
    case False
    with Cons.prems have k: "k \<in> set xs" and d: "distinct (map f xs)" and "f a \<noteq> f k"
      by auto
    with Cons.IH show ?thesis by auto
  qed
qed

lemma sorted_by_key_unique:
  assumes "distinct (map f xs)" and "mset ys = mset xs" and "sorted (map f ys)"
  shows "ys = sort_key f xs"
proof -
  have sety: "set ys = set xs" using assms(2) by (rule mset_eq_setD)
  have "mset (map f ys) = mset (map f xs)" using assms(2) by simp
  then have dy: "distinct (map f ys)" using assms(1) by (metis mset_eq_imp_distinct_iff)
  have "sort_key f xs = ys"
  proof (rule properties_for_sort_key)
    show "mset ys = mset xs" by (rule assms(2))
    show "sorted (map f ys)" by (rule assms(3))
    fix k assume "k \<in> set ys"
    then show "filter (\<lambda>x. f k = f x) ys = filter (\<lambda>x. f k = f x) xs"
      using filter_key_distinct [OF dy] filter_key_distinct [OF assms(1)] sety by simp
  qed
  then show ?thesis by simp
qed

lemma NewConstMetric_ok:
  "length lvs = length (variableLabels d) \<Longrightarrow> list_all ValidString lvs \<Longrightarrow>
   NewConstMetric d vt v lvs = Inr \<lparr>desc = d, valType = vt, val = v, labelValues = lvs\<rparr>"
  by (simp add: NewConstMetric_def)

lemma ValidString_ascii: "list_all (\<lambda>c. byte c < 128) s \<Longrightarrow> ValidString s"
  by (induction s) simp_all

lemma ValidString_ToLower_StatusCodes: "list_all (\<lambda>s. ValidString (ToLower s)) StatusCodes"
  by code_simp

lemma GetRealtime_received:
  assumes "envelope_received l s (realtime_url l (fronius s) scope dc dev) m w"
  shows "GetRealtimeInverterRealtimeData l scope dc dev s =
           ((case Msg_Error m of Some err \<Rightarrow> Inl err | None \<Rightarrow> Inr (Data m)), s\<lparr>net := w\<rparr>)"
  using assms
  by (auto simp: envelope_received_def realtime_url_def GetRealtimeInverterRealtimeData_def
        Let_def split: sum.splits prod.splits option.splits)

lemma GetInverterInfo_received:
  assumes "envelope_received l s (info_url l (fronius s)) m w"
  shows "GetInverterInfo l s =
           ((case Msg_Error m of
               Some err \<Rightarrow> Returned (Inl err)
             | None \<Rightarrow>
                 (case json_Unmarshal_inverters l (Data m) of
                    Inl err \<Rightarrow> Returned (Inl err)
                  | Inr inverters \<Rightarrow>
                      (case range_inverters l inverters [] of
                         None \<Rightarrow> Panicked nil_dereference
                       | Some result \<Rightarrow> Returned (Inr (sort_key Name result))))),
            s\<lparr>net := w\<rparr>)"
  using assms
  by (auto simp: envelope_received_def info_url_def GetInverterInfo_def sort_Slice_sort_key
        Let_def split: sum.splits prod.splits option.splits)

lemma fronius_GetInverterInfo: "fronius (snd (GetInverterInfo l s)) = fronius s"
  by (simp add: GetInverterInfo_def Let_def split: sum.splits prod.splits option.splits)

lemma fronius_GetRealtime:
  "fronius (snd (GetRealtimeInverterRealtimeData l scope dc dev s)) = fronius s"
  by (simp add: GetRealtimeInverterRealtimeData_def Let_def
        split: sum.splits prod.splits option.splits)

lemma fronius_GetCommon: "fronius (snd (GetInverterRealtimeCommonData l dev s)) = fronius s"
  using fronius_GetRealtime [of l "''Device''" "''CommonInverterData''" dev s]
  by (auto simp: GetInverterRealtimeCommonData_def split: sum.splits prod.splits)

lemma fronius_GetThreePhase:
  "fronius (snd (GetInverterRealtimeThreePhaseData l dev s)) = fronius s"
  using fronius_GetRealtime [of l "''Device''" "''3PInverterData''" dev s]
  by (auto simp: GetInverterRealtimeThreePhaseData_def split: sum.splits prod.splits)

lemma fronius_run_call: "fronius (run_call l c s) = fronius s"
  by (cases c)
    (simp_all add: fronius_GetInverterInfo fronius_GetRealtime fronius_GetCommon
      fronius_GetThreePhase)

lemma fronius_run_calls: "fronius (run_calls l cs s) = fronius s"
  by (induction cs arbitrary: s) (simp_all add: fronius_run_call)

lemma byte_digit_char: "d < 10 \<Longrightarrow> byte (digit_char d) < 128"
  by (simp add: byte_def digit_char_def)

lemma ascii_digits: "list_all (\<lambda>c. byte c < 128) (digits n)"
proof (induction n rule: digits.induct)
  case (1 n)
  show ?case
  proof (cases "n < 10")
    case True
    then show ?thesis by (simp add: digits.simps [of n] byte_digit_char)
  next
    case False
    with 1 show ?thesis by (simp add: digits.simps [of n] byte_digit_char)
  qed
qed

lemma ValidString_fmt_d: "ValidString (fmt_d i)"
proof -
  have "byte CHR ''-'' < 128" by (simp add: byte_def)
  then have "list_all (\<lambda>c. byte c < 128) (fmt_d i)"
    by (simp add: fmt_d_def ascii_digits)
  then show ?thesis by (rule ValidString_ascii)
qed

lemma status_loop_emits:
  "ValidString (Name d) \<Longrightarrow> list_all (\<lambda>st. ValidString (ToLower st)) sts \<Longrightarrow>
   status_loop newCollector d sts s = s\<lparr>ch := ch s @ map (status_metric d) sts\<rparr>"
proof (induction sts arbitrary: s)
  case Nil
  then show ?case by simp
next
  case (Cons a sts)
  have "NewConstMetric (inverterStatus newCollector) GaugeValue
          (if StatusCode_String (StatusCode d) = a then 1 else 0) [Name d, ToLower a] =
        Inr (status_metric d a)"
    using Cons.prems by (simp add: NewConstMetric_def newCollector_def status_metric_def)
  with Cons show ?case by (simp add: send_def)
qed

lemma inverter_loop_emits:
  "list_all labels_valid invs \<Longrightarrow>
   inverter_loop newCollector invs ids s =
     (ids @ map Name invs, s\<lparr>ch := ch s @ concat (map inventory_metrics invs)\<rparr>)"
proof (induction invs arbitrary: ids s)
  case Nil
  then show ?case by simp
next
  case (Cons d invs)
  from Cons.prems have v: "labels_valid d" and rest: "list_all labels_valid invs" by simp_all
  have info: "NewConstMetric (inverterInfo newCollector) GaugeValue 1
          [Name d, fmt_d (Dt d), CustomName d, UniqueID d] = Inr (info_metric d)"
    using v by (simp add: NewConstMetric_def newCollector_def info_metric_def labels_valid_def
        ValidString_fmt_d)
  have st: "status_loop newCollector d StatusCodes s' =
        s'\<lparr>ch := ch s' @ map (status_metric d) StatusCodes\<rparr>" for s' :: "'a cstate"
    using v by (intro status_loop_emits) (simp_all add: labels_valid_def ValidString_ToLower_StatusCodes)
  show ?case
    by (simp add: info st Cons.IH [OF rest] send_def inventory_metrics_def)
qed

lemma Msg_Error_text:
  "Msg_Error m = (if Code m = 0 then None else Some (ErrorString (status_error_text m)))"
  by (simp add: Msg_Error_def status_error_text_def)

lemmas test_defs =
  test_lib_def test_store_def test_state_def recording_def test_decode_msg_def ok_response_def
  device_answer_def faulty_answer_def misshapen_answer_def empty_object_answer_def

lemma fmt_d_255: "fmt_d 255 = ''255''"
  by code_simp

lemma faulty_received:
  "envelope_received (test_lib faulty_answer iv) (test_store faulty_answer iv) url
     error_envelope [get_request url]"
  by (simp add: envelope_received_def newRequest_def test_defs StatusOK_def error_envelope_def
      get_request_def)

lemma collectCommon_ok:
  assumes "GetInverterRealtimeCommonData l dev (st s) = (Inr data, st1)" and "ValidString dev"
  shows "collectCommonInverterData l newCollector dev s =
           s\<lparr>st := st1, ch := ch s @ common_metrics l dev data\<rparr>"
  using assms
  by (simp add: collectCommonInverterData_def NewConstMetric_def newCollector_def send_def
      common_metrics_def float64_div_def)

lemma collectCommon_failed:
  assumes "GetInverterRealtimeCommonData l dev (st s) = (Inl err, st1)"
  shows "collectCommonInverterData l c dev s =
           s\<lparr>st := st1, logged := logged s @ [(err, ''unable to get common data for inverter'')]\<rparr>"
  using assms by (simp add: collectCommonInverterData_def log_Err_def)

lemma phase_loop_emits:
  "ValidString dev \<Longrightarrow> list_all (\<lambda>x. length (variableLabels (fst x)) = 2 \<and> ValidString (snd (snd x))) rows \<Longrightarrow>
   phase_loop dev rows s =
     s\<lparr>ch := ch s @ map (\<lambda>x. \<lparr>desc = fst x, valType = GaugeValue, val = Value (fst (snd x)),
                              labelValues = [dev, snd (snd x)]\<rparr>) rows\<rparr>"
proof (induction rows arbitrary: s)
  case Nil
  then show ?case by simp
next
  case (Cons x rows)
  obtain d v p where x: "x = (d, v, p)" by (cases x)
  with Cons show ?case by (simp add: NewConstMetric_def send_def)
qed

lemma collectThreePhase_ok:
  assumes "GetInverterRealtimeThreePhaseData l dev (st s) = (Inr data, st1)" and "ValidString dev"
  shows "collectThreePhaseInverterData l newCollector dev s =
           s\<lparr>st := st1, ch := ch s @ threephase_metrics dev data\<rparr>"
  using assms
  by (simp add: collectThreePhaseInverterData_def phase_loop_emits threephase_metrics_def
      newCollector_def byte_def del: phase_loop.simps)

lemma collectThreePhase_failed:
  assumes "GetInverterRealtimeThreePhaseData l dev (st s) = (Inl err, st1)"
  shows "collectThreePhaseInverterData l c dev s =
           s\<lparr>st := st1, logged := logged s @ [(err, ''unable to get three phase data for inverter'')]\<rparr>"
  using assms by (simp add: collectThreePhaseInverterData_def log_Err_def)

text \<open>One device of the detail phase: what both calls leave in the state.\<close>

lemma detail_step:
  assumes "ValidString dev"
    and "GetInverterRealtimeCommonData l dev (st s) = (rc, s1)"
    and "GetInverterRealtimeThreePhaseData l dev s1 = (rt, s2)"
  shows "st (collectThreePhaseInverterData l newCollector dev
              (collectCommonInverterData l newCollector dev s)) = s2 \<and>
         ch (collectThreePhaseInverterData l newCollector dev
              (collectCommonInverterData l newCollector dev s)) =
           ch s @ detail_metrics l (dev, rc, rt)"
proof -
  let ?s1 = "collectCommonInverterData l newCollector dev s"
  have a: "st ?s1 = s1 \<and>
        ch ?s1 = ch s @ (case rc of Inl err \<Rightarrow> [] | Inr data \<Rightarrow> common_metrics l dev data)"
  proof (cases rc)
    case (Inl err)
    with assms(2) show ?thesis by (simp add: collectCommon_failed)
  next
    case (Inr data)
    with assms(1,2) show ?thesis by (simp add: collectCommon_ok)
  qed
  then have s1: "GetInverterRealtimeThreePhaseData l dev (st ?s1) = (rt, s2)"
    using assms(3) by simp
  have b: "st (collectThreePhaseInverterData l newCollector dev ?s1) = s2 \<and>
        ch (collectThreePhaseInverterData l newCollector dev ?s1) =
          ch ?s1 @ (case rt of Inl err \<Rightarrow> [] | Inr data \<Rightarrow> threephase_metrics dev data)"
  proof (cases rt)
    case (Inl err)
    with s1 show ?thesis by (simp add: collectThreePhase_failed)
  next
    case (Inr data)
    with s1 assms(1) show ?thesis by (simp add: collectThreePhase_ok)
  qed
  from a b show ?thesis by (cases rc; cases rt; simp add: detail_metrics_def)
qed

lemma ids_loop_emits:
  "list_all ValidString ids \<Longrightarrow>
   ch (ids_loop l newCollector ids s) =
     ch s @ concat (map (detail_metrics l) (detail_calls l ids (st s)))"
proof (induction ids arbitrary: s)
  case Nil
  then show ?case by simp
next
  case (Cons dev ids)
  obtain rc s1 where rc: "GetInverterRealtimeCommonData l dev (st s) = (rc, s1)"
    by (cases "GetInverterRealtimeCommonData l dev (st s)")
  obtain rt s2 where rt: "GetInverterRealtimeThreePhaseData l dev s1 = (rt, s2)"
    by (cases "GetInverterRealtimeThreePhaseData l dev s1")
  from Cons.prems have v: "ValidString dev" and rest: "list_all ValidString ids" by simp_all
  note step = detail_step [OF v rc rt]
  show ?case
    by (simp add: Cons.IH [OF rest] step rc rt)
qed

lemma detail_calls_keys: "map fst (detail_calls l ids s) = ids"
  by (induction ids arbitrary: s) (simp_all split: prod.splits)

lemma Collect_inventory_failed:
  assumes "GetInverterInfo l (st s) = (Returned (Inl err), st1)"
  shows "Collect l c s =
           Returned (s\<lparr>st := st1, logged := logged s @ [(err, ''unable to get inverter info'')]\<rparr>)"
  using assms by (simp add: Collect_def collectInverters_def log_Err_def)

lemma Collect_inventory_ok:
  assumes "GetInverterInfo l (st s) = (Returned (Inr invs), st1)" and "list_all labels_valid invs"
  shows "\<exists>s'. Collect l newCollector s = Returned s' \<and>
           ch s' = ch s @ concat (map inventory_metrics invs) @
                   concat (map (detail_metrics l) (detail_calls l (map Name invs) st1))"
proof -
  have ids: "list_all ValidString (map Name invs)"
    using assms(2) by (induction invs) (simp_all add: labels_valid_def)
  have "Collect l newCollector s =
          Returned (ids_loop l newCollector (map Name invs)
            (s\<lparr>st := st1, ch := ch s @ concat (map inventory_metrics invs)\<rparr>))"
    using assms by (simp add: Collect_def collectInverters_def inverter_loop_emits)
  then show ?thesis by (simp add: ids_loop_emits [OF ids])
qed

lemma Collect_panics:
  "(Collect l c s = Panicked p) = (fst (GetInverterInfo l (st s)) = Panicked p)"
  by (auto simp: Collect_def collectInverters_def split: prod.splits outcome.splits sum.splits)

lemma map_insort_key: "map f (insort_key f x xs) = insort (f x) (map f xs)"
  by (induction xs) simp_all

lemma map_sort_key: "map f (sort_key f xs) = sort (map f xs)"
  by (induction xs) (simp_all add: map_insort_key)

lemma Name_named: "Name (named l e) = fst e"
  by (simp add: named_def)

lemma map_Name_named: "map Name (map (named l) entries) = map fst entries"
  by (simp add: Name_named)

lemma GetInverterInfo_entries:
  assumes "envelope_received l s (info_url l (fronius s)) m w" and "Code m = 0"
    and "json_Unmarshal_inverters l (Data m) = Inr (entries_map entries)"
  shows "GetInverterInfo l s =
           (Returned (Inr (sort_key Name (map (named l) entries))), s\<lparr>net := w\<rparr>)"
  using GetInverterInfo_received [OF assms(1)] assms(2,3)
  by (simp add: Msg_Error_text range_inverters_entries)

lemma received_other_unmarshal:
  "envelope_received (l\<lparr>json_Unmarshal_inverters := g\<rparr>) s
     (info_url (l\<lparr>json_Unmarshal_inverters := g\<rparr>) (fronius s)) m w =
   envelope_received l s (info_url l (fronius s)) m w"
  by (auto simp: envelope_received_def info_url_def newRequest_def split: sum.splits prod.splits)

lemma named_other_unmarshal: "named (l\<lparr>json_Unmarshal_inverters := g\<rparr>) = named l"
  by (rule ext) (simp add: named_def)

lemma sort_three: "sort [''3'', ''1'', ''2''] = [''1'', ''2'', ''3'']"
  by code_simp

lemma device_received_info:
  "envelope_received (test_lib device_answer iv) (test_store device_answer iv)
     (info_url (test_lib device_answer iv) (fronius (test_store device_answer iv)))
     \<lparr>Data = ''I'', Code = 0, Reason = ''r'', UserMessage = ''u'', Timestamp = []\<rparr>
     [get_request (info_url (test_lib device_answer iv) (fronius (test_store device_answer iv)))]"
  by (simp add: envelope_received_def newRequest_def test_defs StatusOK_def get_request_def
      info_url_def)

lemma status_values:
  "map val (map (status_metric d) StatusCodes) =
     map (\<lambda>status. if StatusCode_String (StatusCode d) = status then 1 else 0) StatusCodes"
  by (simp add: status_metric_def)

lemma count_one:
  "distinct xs \<Longrightarrow> x \<in> set xs \<Longrightarrow> length (filter (\<lambda>y. x = y) xs) = 1"
  by (induction xs) (auto simp: filter_empty_conv)

lemma StatusCodes_facts:
  "distinct StatusCodes" "length StatusCodes = 10" "StatusCode_String c \<in> set StatusCodes"
  by (simp_all add: StatusCodes_def StatusCode_names StatusCode_String_def)

lemma status_one_hot:
  "length (filter (\<lambda>m. val m = 1) (map (status_metric d) StatusCodes)) = 1 \<and>
   length (filter (\<lambda>m. val m = 0) (map (status_metric d) StatusCodes)) = 9"
proof -
  let ?x = "StatusCode_String (StatusCode d)"
  have one: "filter (\<lambda>m. val m = 1) (map (status_metric d) StatusCodes) =
        map (status_metric d) (filter (\<lambda>y. ?x = y) StatusCodes)"
    by (simp add: filter_map comp_def status_metric_def)
  have zero: "filter (\<lambda>m. val m = 0) (map (status_metric d) StatusCodes) =
        map (status_metric d) (filter (\<lambda>y. \<not> ?x = y) StatusCodes)"
    by (simp add: filter_map comp_def status_metric_def)
  have c1: "length (filter (\<lambda>y. ?x = y) StatusCodes) = 1"
    by (rule count_one) (rule StatusCodes_facts)+
  have "length (filter (\<lambda>y. ?x = y) StatusCodes) + length (filter (\<lambda>y. \<not> ?x = y) StatusCodes) =
        length StatusCodes"
    by (rule sum_length_filter_compl)
  with c1 have c0: "length (filter (\<lambda>y. \<not> ?x = y) StatusCodes) = 9"
    by (simp add: StatusCodes_facts)
  from c1 c0 show ?thesis by (simp add: one zero)
qed

lemma ToLower_StatusCodes:
  "map ToLower StatusCodes =
     [''startup'', ''running'', ''standby'', ''bootloading'', ''error'', ''idle'', ''ready'',
      ''sleeping'', ''unknown'', ''invalid'']"
  by code_simp

lemma filter_eq_distinct:
  "distinct xs \<Longrightarrow> x \<in> set xs \<Longrightarrow> filter (\<lambda>y. x = y) xs = [x]"
  by (induction xs) (auto simp: filter_empty_conv)

lemmas client_defs =
  GetRealtimeInverterRealtimeData_def GetInverterInfo_def GetInverterRealtimeCommonData_def
  GetInverterRealtimeThreePhaseData_def newRequest_def Msg_Error_def StatusOK_def Let_def

lemma device_1_common:
  "fst (GetRealtimeInverterRealtimeData (test_lib device_answer iv) ''Device'' ''CommonInverterData''
     ''1'' (test_store device_answer iv)) = Inr ''C''"
  by (simp add: client_defs test_defs)

lemma misshapen_common:
  "fst (GetRealtimeInverterRealtimeData (test_lib misshapen_answer iv) ''Device'' ''CommonInverterData''
     ''1'' (test_store misshapen_answer iv)) = Inr ''X''"
  by (simp add: client_defs test_defs)

lemma device_1_common_data:
  "GetInverterRealtimeCommonData (test_lib device_answer iv) ''1'' (test_store device_answer iv) =
     (Inr common_1,
      (test_store device_answer iv)\<lparr>net := [get_request (realtime_url (test_lib device_answer iv)
         (fronius (test_store device_answer iv)) ''Device'' ''CommonInverterData'' ''1'')]\<rparr>)"
  by (simp add: client_defs test_defs get_request_def realtime_url_def)

lemma two_inventory:
  "GetInverterInfo (test_lib device_answer (entries_map two_inverters))
     (test_store device_answer iv) =
   (Returned (Inr [inverter_1\<lparr>Name := ''1'', CustomName := ''East & West''\<rparr>,
                   inverter_2\<lparr>Name := ''2''\<rparr>]),
    (test_store device_answer iv)\<lparr>net := [get_request ''/solar_api/v1//GetInverterInfo.cgi?DeviceClass=System&'']\<rparr>)"
  by (simp add: client_defs test_defs get_request_def entries_map_def two_inverters_def
      sort_Slice_def inverter_1_def inverter_2_def)

lemma two_detail_calls:
  "detail_calls (test_lib device_answer iv) [''1'', ''2'']
     ((test_store device_answer iv')\<lparr>net := w\<rparr>) =
   [(''1'', Inr common_1, Inr threephase_1),
    (''2'', Inl (ErrorString ''context deadline exceeded''),
            Inl (ErrorString ''context deadline exceeded''))]"
  by (simp add: client_defs test_defs)

lemma faulty_inventory:
  "fst (GetInverterInfo (test_lib faulty_answer iv) (test_store faulty_answer iv')) =
     Returned (Inl (ErrorString ''fronius status code=255: msg=u reason=r''))"
  by (simp add: client_defs test_defs fmt_d_255)

lemma list_all_sort_key: "list_all P (sort_key f xs) = list_all P xs"
  by (simp add: list_all_iff)

lemma info_metric_sent: "d \<in> set invs \<Longrightarrow> info_metric d \<in> set (concat (map inventory_metrics invs))"
  by (auto simp: inventory_metrics_def)

lemma unescape_examples:
  "unescape_amp ''East &amp; West'' = ''East & West''"
  "unescape_amp ''garage'' = ''garage''"
  "unescape_amp ''&amp;'' = ''&''"
  by code_simp+

lemma fmt_d_232: "fmt_d 232 = ''232''"
  by code_simp

lemma named_three:
  "map (named (test_lib answer iv)) three_inverters =
     [inverter_3\<lparr>Name := ''3'', CustomName := ''&''\<rparr>,
      inverter_1\<lparr>Name := ''1'', CustomName := ''East & West''\<rparr>,
      inverter_2\<lparr>Name := ''2''\<rparr>]"
  by (simp add: named_def test_lib_def three_inverters_def inverter_1_def inverter_2_def
      inverter_3_def unescape_examples)

lemma run_calls_append: "run_calls l (cs @ ds) s = run_calls l ds (run_calls l cs s)"
  by (induction cs arbitrary: s) simp_all

lemma recorded_info:
  assumes "Client (fronius s) = recording answer"
    and "newRequest l ''GET'' (info_url l (fronius s)) = Inr req"
  shows "net (snd (GetInverterInfo l s)) = net s @ [req]"
  using assms
  by (simp add: GetInverterInfo_def info_url_def recording_def Let_def
      split: sum.splits option.splits)

lemma recorded_realtime:
  assumes "Client (fronius s) = recording answer"
    and "newRequest l ''GET'' (realtime_url l (fronius s) scope dc dev) = Inr req"
  shows "net (snd (GetRealtimeInverterRealtimeData l scope dc dev s)) = net s @ [req]"
  using assms
  by (simp add: GetRealtimeInverterRealtimeData_def realtime_url_def recording_def Let_def
      split: sum.splits option.splits)

lemma snd_GetCommon:
  "snd (GetInverterRealtimeCommonData l dev s) =
   snd (GetRealtimeInverterRealtimeData l ''Device'' ''CommonInverterData'' dev s)"
  by (simp add: GetInverterRealtimeCommonData_def split: prod.splits sum.splits)

lemma snd_GetThreePhase:
  "snd (GetInverterRealtimeThreePhaseData l dev s) =
   snd (GetRealtimeInverterRealtimeData l ''Device'' ''3PInverterData'' dev s)"
  by (simp add: GetInverterRealtimeThreePhaseData_def split: prod.splits sum.splits)

lemma recorded_two_calls:
  "net (run_calls (test_lib device_answer []) [CallInverterInfo, CallCommonData ''1'']
         (test_store device_answer [])) =
   [get_request ''/solar_api/v1//GetInverterInfo.cgi?DeviceClass=System&'',
    get_request ''/solar_api/v1//GetInverterRealtimeData.cgi?Scope=Device&DataCollection=CommonInverterData&DeviceId=1&'']"
  by (simp add: client_defs test_defs get_request_def)

lemma fmt_d_99: "fmt_d 99 = ''99''"
  by code_simp

lemma sorted_three: "sorted [''1'', ''2'', ''3'' :: string]"
  by code_simp

lemma recorded_three_calls:
  "net (run_calls (test_lib device_answer []) [CallInverterInfo, CallCommonData ''1'', CallInverterInfo]
         (test_store device_answer [])) =
   [get_request ''/solar_api/v1//GetInverterInfo.cgi?DeviceClass=System&'',
    get_request ''/solar_api/v1//GetInverterRealtimeData.cgi?Scope=Device&DataCollection=CommonInverterData&DeviceId=1&'',
    get_request ''/solar_api/v1//GetInverterInfo.cgi?DeviceClass=System&'']"
  by (simp add: client_defs test_defs get_request_def)

lemma status_filter_statuses:
  "filter (is_status_of d) (map (status_metric i) xs) =
     (if Name i = Name d then map (status_metric i) xs else [])"
  by (induction xs) (simp_all add: is_status_of_def status_metric_def)

lemma status_filter_inventory:
  "filter (is_status_of d) (inventory_metrics i) =
     (if Name i = Name d then map (status_metric i) StatusCodes else [])"
  by (simp add: inventory_metrics_def status_filter_statuses)
    (simp add: is_status_of_def info_metric_def newCollector_def)

lemma status_filter_other:
  "Name d \<notin> Name ` set invs \<Longrightarrow> filter (is_status_of d) (concat (map inventory_metrics invs)) = []"
  by (induction invs) (auto simp: status_filter_inventory)

lemma status_filter_concat:
  "distinct (map Name invs) \<Longrightarrow> d \<in> set invs \<Longrightarrow>
   filter (is_status_of d) (concat (map inventory_metrics invs)) = map (status_metric d) StatusCodes"
proof (induction invs)
  case Nil
  then show ?case by simp
next
  case (Cons i invs)
  show ?case
  proof (cases "i = d")
    case True
    with Cons.prems have "Name d \<notin> Name ` set invs" by simp
    then have "filter (is_status_of d) (concat (map inventory_metrics invs)) = []"
      by (rule status_filter_other)
    with True show ?thesis by (simp add: status_filter_inventory)
  next
    case False
    with Cons.prems have d: "d \<in> set invs" and dist: "distinct (map Name invs)"
      and "Name i \<noteq> Name d" by auto
    with Cons.IH show ?thesis by (simp add: status_filter_inventory)
  qed
qed

lemma status_filter_detail: "filter (is_status_of d) (detail_metrics l r) = []"
proof -
  obtain dev rc rt where r: "r = (dev, rc, rt)" by (cases r)
  show ?thesis
    unfolding r
    by (cases rc; cases rt)
      (simp_all add: detail_metrics_def common_metrics_def threephase_metrics_def
        is_status_of_def newCollector_def)
qed

lemma status_filter_details:
  "filter (is_status_of d) (concat (map (detail_metrics l) rs)) = []"
  by (induction rs) (simp_all add: status_filter_detail)

lemma collectInverters_ok:
  assumes "GetInverterInfo l (st s) = (Returned (Inr invs), st1)" and "list_all labels_valid invs"
  shows "collectInverters l newCollector s =
           Returned (map Name invs,
                     s\<lparr>st := st1, ch := ch s @ concat (map inventory_metrics invs)\<rparr>)"
  using assms by (simp add: collectInverters_def inverter_loop_emits)

text \<open>
  What \<open>Collect\<close> sends when the inventory call returns (an error or the devices), and
  that it fails to return exactly when the inventory call panics.
\<close>

lemma Collect_sends:
  "(GetInverterInfo l (st s) = (Returned (Inl err), st1) \<longrightarrow>
      (\<exists>s'. Collect l c s = Returned s' \<and> ch s' = ch s \<and>
            logged s' = logged s @ [(err, ''unable to get inverter info'')])) \<and>
   (GetInverterInfo l (st s) = (Returned (Inr invs), st1) \<and> list_all labels_valid invs \<longrightarrow>
      (\<exists>s'. Collect l newCollector s = Returned s' \<and>
            ch s' = ch s @ concat (map inventory_metrics invs) @
                    concat (map (detail_metrics l) (detail_calls l (map Name invs) st1)))) \<and>
   map fst (detail_calls l ids st1) = ids \<and>
   detail_metrics l (deviceID, Inl e1, Inl e2) = [] \<and>
   detail_metrics l (deviceID, Inr commonData, Inl e2) = common_metrics l deviceID commonData \<and>
   detail_metrics l (deviceID, Inl e1, Inr threePhaseData) =
     threephase_metrics deviceID threePhaseData \<and>
   detail_metrics l (deviceID, Inr commonData, Inr threePhaseData) =
     common_metrics l deviceID commonData @ threephase_metrics deviceID threePhaseData \<and>
   (Collect l c s = Panicked p) = (fst (GetInverterInfo l (st s)) = Panicked p)"
proof -
  have a: "\<exists>s'. Collect l c s = Returned s' \<and> ch s' = ch s \<and>
            logged s' = logged s @ [(err, ''unable to get inverter info'')]"
    if "GetInverterInfo l (st s) = (Returned (Inl err), st1)"
    using Collect_inventory_failed [OF that] by simp
  have b: "\<exists>s'. Collect l newCollector s = Returned s' \<and>
            ch s' = ch s @ concat (map inventory_metrics invs) @
                    concat (map (detail_metrics l) (detail_calls l (map Name invs) st1))"
    if "GetInverterInfo l (st s) = (Returned (Inr invs), st1)" and "list_all labels_valid invs"
    using that by (rule Collect_inventory_ok)
  have d: "detail_metrics l (deviceID, Inl e1, Inl e2) = []"
    "detail_metrics l (deviceID, Inr commonData, Inl e2) = common_metrics l deviceID commonData"
    "detail_metrics l (deviceID, Inl e1, Inr threePhaseData) =
       threephase_metrics deviceID threePhaseData"
    "detail_metrics l (deviceID, Inr commonData, Inr threePhaseData) =
       common_metrics l deviceID commonData @ threephase_metrics deviceID threePhaseData"
    by (simp_all add: detail_metrics_def)
  from a b d detail_calls_keys [of l ids st1] Collect_panics [of l c s p] show ?thesis
    by blast
qed

text \<open>
  \<open>Collect\<close> on two devices, where both detail calls for the device \<open>2\<close> end in a
  network error and those for the device \<open>1\<close> succeed; and on a device whose inventory
  call returns an error.
\<close>

lemma Collect_sends_two_devices:
  "fst (GetInverterInfo (test_lib device_answer (entries_map two_inverters))
         (st (test_state device_answer []))) =
     Returned (Inr [inverter_1\<lparr>Name := ''1'', CustomName := ''East & West''\<rparr>,
                    inverter_2\<lparr>Name := ''2''\<rparr>]) \<and>
   list_all labels_valid [inverter_1\<lparr>Name := ''1'', CustomName := ''East & West''\<rparr>,
                          inverter_2\<lparr>Name := ''2''\<rparr>] \<and>
   detail_calls (test_lib device_answer (entries_map two_inverters)) [''1'', ''2'']
     (snd (GetInverterInfo (test_lib device_answer (entries_map two_inverters))
             (st (test_state device_answer [])))) =
     [(''1'', Inr common_1, Inr threephase_1),
      (''2'', Inl (ErrorString ''context deadline exceeded''),
              Inl (ErrorString ''context deadline exceeded''))] \<and>
   (\<exists>s'. Collect (test_lib device_answer (entries_map two_inverters)) newCollector
            (test_state device_answer []) = Returned s' \<and>
         ch s' =
           inventory_metrics (inverter_1\<lparr>Name := ''1'', CustomName := ''East & West''\<rparr>) @
           inventory_metrics (inverter_2\<lparr>Name := ''2''\<rparr>) @
           common_metrics (test_lib device_answer (entries_map two_inverters)) ''1'' common_1 @
           threephase_metrics ''1'' threephase_1) \<and>
   fst (GetInverterInfo (test_lib faulty_answer []) (st (test_state faulty_answer []))) =
     Returned (Inl (ErrorString ''fronius status code=255: msg=u reason=r'')) \<and>
   (\<exists>s'. Collect (test_lib faulty_answer []) newCollector (test_state faulty_answer []) =
           Returned s' \<and> ch s' = [])"
proof -
  let ?l = "test_lib device_answer (entries_map two_inverters)"
  let ?s = "test_state device_answer []"
  let ?d1 = "inverter_1\<lparr>Name := ''1'', CustomName := ''East & West''\<rparr>"
  let ?d2 = "inverter_2\<lparr>Name := ''2''\<rparr>"
  let ?w = "[get_request ''/solar_api/v1//GetInverterInfo.cgi?DeviceClass=System&'']"
  let ?st1 = "(test_store device_answer [])\<lparr>net := ?w\<rparr>"
  let ?lf = "test_lib faulty_answer []"
  let ?sf = "test_state faulty_answer []"
  have g: "GetInverterInfo ?l (st ?s) = (Returned (Inr [?d1, ?d2]), ?st1)"
    using two_inventory [of "[]"] by (simp add: test_state_def)
  have v: "list_all labels_valid [?d1, ?d2]"
    by (simp add: labels_valid_def inverter_1_def inverter_2_def byte_def)
  have calls: "detail_calls ?l [''1'', ''2''] ?st1 =
     [(''1'', Inr common_1, Inr threephase_1),
      (''2'', Inl (ErrorString ''context deadline exceeded''),
              Inl (ErrorString ''context deadline exceeded''))]"
    by (rule two_detail_calls)
  from Collect_sends [of ?l ?s _ ?st1 newCollector "[?d1, ?d2]"] g v
  obtain s' where "Collect ?l newCollector ?s = Returned s'"
    and "ch s' = ch ?s @ concat (map inventory_metrics [?d1, ?d2]) @
           concat (map (detail_metrics ?l) (detail_calls ?l (map Name [?d1, ?d2]) ?st1))"
    by blast
  then have run: "\<exists>s'. Collect ?l newCollector ?s = Returned s' \<and>
      ch s' = inventory_metrics ?d1 @ inventory_metrics ?d2 @
              common_metrics ?l ''1'' common_1 @ threephase_metrics ''1'' threephase_1"
    by (simp add: calls detail_metrics_def test_state_def del: detail_calls.simps)
  obtain stf where gf: "GetInverterInfo ?lf (st ?sf) =
      (Returned (Inl (ErrorString ''fronius status code=255: msg=u reason=r'')), stf)"
    using faulty_inventory [of "[]" "[]"]
    by (cases "GetInverterInfo ?lf (st ?sf)") (simp add: test_state_def)
  from Collect_sends [of ?lf ?sf _ stf newCollector] gf
  obtain sf' where "Collect ?lf newCollector ?sf = Returned sf'" and "ch sf' = ch ?sf"
    by blast
  then have fail: "\<exists>s'. Collect ?lf newCollector ?sf = Returned s' \<and> ch s' = []"
    by (simp add: test_state_def)
  from g v calls run gf fail show ?thesis
    by (simp del: detail_calls.simps)
qed

section \<open>The claims\<close>

text \<open>
  C1. The status decoder is total: every integer code gives one of the ten names of
  \<open>StatusCodes\<close>, which are distinct, and each name is given by exactly the codes of
  the table: 0 to 6 Startup, 7 Running, 8 Standby, 9 Bootloading, 10 Error, 11 Idle,
  12 Ready, 13 Sleeping, 255 Unknown, and every other integer (the negative ones, 14 to
  254, 256 and above) the catch-all \<open>INVALID\<close>.
\<close>

theorem StatusCode_String_table:
  "StatusCode_String c \<in> set StatusCodes \<and> distinct StatusCodes \<and> length StatusCodes = 10 \<and>
   (StatusCode_String c = StatusCodeStartup) = (0 \<le> c \<and> c \<le> 6) \<and>
   (StatusCode_String c = StatusCodeRunning) = (c = 7) \<and>
   (StatusCode_String c = StatusCodeStandby) = (c = 8) \<and>
   (StatusCode_String c = StatusCodeBootloading) = (c = 9) \<and>
   (StatusCode_String c = StatusCodeError) = (c = 10) \<and>
   (StatusCode_String c = StatusCodeIdle) = (c = 11) \<and>
   (StatusCode_String c = StatusCodeReady) = (c = 12) \<and>
   (StatusCode_String c = StatusCodeSleeping) = (c = 13) \<and>
   (StatusCode_String c = StatusCodeUnknown) = (c = 255) \<and>
   (StatusCode_String c = StatusCodeInvalid) = (c < 0 \<or> 13 < c \<and> c \<noteq> 255)"
proof -
  have names: "distinct StatusCodes \<and> length StatusCodes = 10"
    by (simp add: StatusCodes_def StatusCode_names)
  have mem: "StatusCode_String c \<in> set StatusCodes"
    by (simp add: StatusCodes_def StatusCode_String_def)
  have tab: "(StatusCode_String c = StatusCodeStartup) = (0 \<le> c \<and> c \<le> 6)"
    "(StatusCode_String c = StatusCodeRunning) = (c = 7)"
    "(StatusCode_String c = StatusCodeStandby) = (c = 8)"
    "(StatusCode_String c = StatusCodeBootloading) = (c = 9)"
    "(StatusCode_String c = StatusCodeError) = (c = 10)"
    "(StatusCode_String c = StatusCodeIdle) = (c = 11)"
    "(StatusCode_String c = StatusCodeReady) = (c = 12)"
    "(StatusCode_String c = StatusCodeSleeping) = (c = 13)"
    "(StatusCode_String c = StatusCodeUnknown) = (c = 255)"
    "(StatusCode_String c = StatusCodeInvalid) = (c < 0 \<or> 13 < c \<and> c \<noteq> 255)"
    by (auto simp: StatusCode_String_def StatusCode_names)
  from names mem tab show ?thesis by blast
qed

text \<open>The boundaries of the table, evaluated.\<close>

lemma StatusCode_String_boundaries:
  "StatusCode_String 0 = ''Startup''" "StatusCode_String 6 = ''Startup''"
  "StatusCode_String 7 = ''Running''" "StatusCode_String 13 = ''Sleeping''"
  "StatusCode_String 14 = ''INVALID''" "StatusCode_String 254 = ''INVALID''"
  "StatusCode_String 255 = ''Unknown''" "StatusCode_String 256 = ''INVALID''"
  "StatusCode_String (- 1) = ''INVALID''"
  by (simp_all add: StatusCode_String_def StatusCode_names)

text \<open>
  C2. \<open>Msg.Error\<close> gives an error exactly when the status code is not zero, and then
  the error's text holds that code, the user message and the reason; the payload has no
  part in it. An operation that received an envelope returns the payload bytes as they
  are when the code is zero, and that error, whatever the payload, when it is not.
\<close>

theorem Msg_Error_protocol_error:
  "(Msg_Error m = None) = (Code m = 0) \<and>
   (Msg_Error m = Some (ErrorString (status_error_text m))) = (Code m \<noteq> 0) \<and>
   Msg_Error (m\<lparr>Data := d\<rparr>) = Msg_Error m \<and>
   (envelope_received l s (realtime_url l (fronius s) scope dataCollection deviceID) m w \<longrightarrow>
      GetRealtimeInverterRealtimeData l scope dataCollection deviceID s =
        (if Code m = 0 then Inr (Data m) else Inl (ErrorString (status_error_text m)),
         s\<lparr>net := w\<rparr>)) \<and>
   (envelope_received l s (info_url l (fronius s)) m w \<and> Code m \<noteq> 0 \<longrightarrow>
      GetInverterInfo l s = (Returned (Inl (ErrorString (status_error_text m))), s\<lparr>net := w\<rparr>)) \<and>
   (envelope_received l s (realtime_url l (fronius s) ''Device'' ''CommonInverterData'' deviceID) m w \<and>
    Code m \<noteq> 0 \<longrightarrow>
      GetInverterRealtimeCommonData l deviceID s =
        (Inl (ErrorString (status_error_text m)), s\<lparr>net := w\<rparr>))"
proof -
  have a: "(Msg_Error m = None) = (Code m = 0)"
    and b: "(Msg_Error m = Some (ErrorString (status_error_text m))) = (Code m \<noteq> 0)"
    by (simp_all add: Msg_Error_text)
  have c: "Msg_Error (m\<lparr>Data := d\<rparr>) = Msg_Error m"
    by (simp add: Msg_Error_def)
  have d: "GetRealtimeInverterRealtimeData l scope dataCollection deviceID s =
        (if Code m = 0 then Inr (Data m) else Inl (ErrorString (status_error_text m)),
         s\<lparr>net := w\<rparr>)"
    if "envelope_received l s (realtime_url l (fronius s) scope dataCollection deviceID) m w"
    using GetRealtime_received [OF that] by (simp add: Msg_Error_text)
  have e: "GetInverterInfo l s = (Returned (Inl (ErrorString (status_error_text m))), s\<lparr>net := w\<rparr>)"
    if "envelope_received l s (info_url l (fronius s)) m w" and "Code m \<noteq> 0"
    using GetInverterInfo_received [OF that(1)] that(2) by (simp add: Msg_Error_text)
  have f: "GetInverterRealtimeCommonData l deviceID s =
        (Inl (ErrorString (status_error_text m)), s\<lparr>net := w\<rparr>)"
    if "envelope_received l s (realtime_url l (fronius s) ''Device'' ''CommonInverterData'' deviceID) m w"
      and "Code m \<noteq> 0"
    using GetRealtime_received [OF that(1)] that(2)
    by (simp add: Msg_Error_text GetInverterRealtimeCommonData_def)
  from a b c d e f show ?thesis by blast
qed

text \<open>C2 on a device that answers every request with the status code 255.\<close>

theorem Msg_Error_protocol_error_witness:
  "envelope_received (test_lib faulty_answer []) (test_store faulty_answer [])
     (realtime_url (test_lib faulty_answer []) (fronius (test_store faulty_answer []))
        ''Device'' ''CommonInverterData'' ''1'')
     error_envelope
     [get_request (realtime_url (test_lib faulty_answer []) (fronius (test_store faulty_answer []))
         ''Device'' ''CommonInverterData'' ''1'')] \<and>
   Code error_envelope = 255 \<and>
   fst (GetRealtimeInverterRealtimeData (test_lib faulty_answer []) ''Device'' ''CommonInverterData''
          ''1'' (test_store faulty_answer [])) =
     Inl (ErrorString ''fronius status code=255: msg=u reason=r'') \<and>
   fst (GetInverterRealtimeCommonData (test_lib faulty_answer []) ''1'' (test_store faulty_answer [])) =
     Inl (ErrorString ''fronius status code=255: msg=u reason=r'') \<and>
   envelope_received (test_lib faulty_answer []) (test_store faulty_answer [])
     (info_url (test_lib faulty_answer []) (fronius (test_store faulty_answer [])))
     error_envelope
     [get_request (info_url (test_lib faulty_answer []) (fronius (test_store faulty_answer [])))] \<and>
   fst (GetInverterInfo (test_lib faulty_answer []) (test_store faulty_answer [])) =
     Returned (Inl (ErrorString ''fronius status code=255: msg=u reason=r'')) \<and>
   envelope_received (test_lib device_answer []) (test_store device_answer [])
     (realtime_url (test_lib device_answer []) (fronius (test_store device_answer []))
        ''Device'' ''CommonInverterData'' ''1'')
     \<lparr>Data = ''C'', Code = 0, Reason = ''r'', UserMessage = ''u'', Timestamp = []\<rparr>
     [get_request (realtime_url (test_lib device_answer []) (fronius (test_store device_answer []))
         ''Device'' ''CommonInverterData'' ''1'')] \<and>
   fst (GetRealtimeInverterRealtimeData (test_lib device_answer []) ''Device'' ''CommonInverterData''
          ''1'' (test_store device_answer [])) = Inr ''C''"
proof -
  have t: "status_error_text error_envelope = ''fronius status code=255: msg=u reason=r''"
    and k: "Code error_envelope = 255"
    by (simp_all add: status_error_text_def fmt_d_255 error_envelope_def)
  note r1 = faulty_received [of "[]" "realtime_url (test_lib faulty_answer [])
        (fronius (test_store faulty_answer [])) ''Device'' ''CommonInverterData'' ''1''"]
  note r2 = faulty_received [of "[]" "info_url (test_lib faulty_answer [])
        (fronius (test_store faulty_answer []))"]
  note inst = Msg_Error_protocol_error [of error_envelope _ "test_lib faulty_answer []"
      "test_store faulty_answer []" "''Device''" "''CommonInverterData''" "''1''"]
  from r1 k inst [of _ "[get_request (realtime_url (test_lib faulty_answer [])
        (fronius (test_store faulty_answer [])) ''Device'' ''CommonInverterData'' ''1'')]"]
  have a: "fst (GetRealtimeInverterRealtimeData (test_lib faulty_answer []) ''Device''
          ''CommonInverterData'' ''1'' (test_store faulty_answer [])) =
     Inl (ErrorString ''fronius status code=255: msg=u reason=r'')"
    and b: "fst (GetInverterRealtimeCommonData (test_lib faulty_answer []) ''1''
          (test_store faulty_answer [])) =
     Inl (ErrorString ''fronius status code=255: msg=u reason=r'')"
    by (simp_all add: t)
  from r2 k inst [of _ "[get_request (info_url (test_lib faulty_answer [])
        (fronius (test_store faulty_answer [])))]"]
  have c: "fst (GetInverterInfo (test_lib faulty_answer []) (test_store faulty_answer [])) =
     Returned (Inl (ErrorString ''fronius status code=255: msg=u reason=r''))"
    by (simp add: t)
  have r3: "envelope_received (test_lib device_answer []) (test_store device_answer [])
     (realtime_url (test_lib device_answer []) (fronius (test_store device_answer []))
        ''Device'' ''CommonInverterData'' ''1'')
     \<lparr>Data = ''C'', Code = 0, Reason = ''r'', UserMessage = ''u'', Timestamp = []\<rparr>
     [get_request (realtime_url (test_lib device_answer []) (fronius (test_store device_answer []))
         ''Device'' ''CommonInverterData'' ''1'')]"
    by (simp add: envelope_received_def newRequest_def test_defs StatusOK_def get_request_def
        realtime_url_def)
  from r3 Msg_Error_protocol_error [of
      "\<lparr>Data = ''C'', Code = 0, Reason = ''r'', UserMessage = ''u'', Timestamp = []\<rparr>" _
      "test_lib device_answer []" "test_store device_answer []"
      "''Device''" "''CommonInverterData''" "''1''"
      "[get_request (realtime_url (test_lib device_answer []) (fronius (test_store device_answer []))
         ''Device'' ''CommonInverterData'' ''1'')]"]
  have d: "fst (GetRealtimeInverterRealtimeData (test_lib device_answer []) ''Device''
          ''CommonInverterData'' ''1'' (test_store device_answer [])) = Inr ''C''"
    by simp
  from r1 r2 k a b c r3 d show ?thesis by (simp only: simp_thms)
qed

text \<open>
  C3. When the inventory request is answered with status code 0 and the payload decodes
  to a mapping (given by its entries, in the order the \<open>range\<close> loop visits them, with
  distinct keys and no nil pointer), \<open>GetInverterInfo\<close> returns the entries' records,
  each with its key as \<open>Name\<close>, sorted ascending by \<open>Name\<close> in the order of Go's strings
  (bytewise). The result is the only sorted arrangement of these records, so it does not
  depend on the sorting algorithm, and it is the same for every order in which the
  mapping's entries are visited.
\<close>

theorem GetInverterInfo_sorted_by_key:
  assumes "envelope_received l s (info_url l (fronius s)) m w" and "Code m = 0"
    and "json_Unmarshal_inverters l (Data m) = Inr (entries_map entries)"
    and "distinct (map fst entries)"
  shows "\<exists>result. GetInverterInfo l s = (Returned (Inr result), s\<lparr>net := w\<rparr>) \<and>
           result = sort_key Name (map (named l) entries) \<and>
           map Name result = sort (map fst entries) \<and>
           sorted (map Name result) \<and> distinct (map Name result) \<and>
           mset result = mset (map (named l) entries) \<and>
           (\<forall>ys. mset ys = mset (map (named l) entries) \<and> sorted (map Name ys) \<longrightarrow> ys = result) \<and>
           (\<forall>entries'. mset entries' = mset entries \<longrightarrow>
              GetInverterInfo (l\<lparr>json_Unmarshal_inverters := \<lambda>d. Inr (entries_map entries')\<rparr>) s =
              GetInverterInfo l s)"
proof -
  let ?rs = "map (named l) entries"
  let ?result = "sort_key Name ?rs"
  have run: "GetInverterInfo l s = (Returned (Inr ?result), s\<lparr>net := w\<rparr>)"
    using assms(1-3) by (rule GetInverterInfo_entries)
  have names: "map Name ?result = sort (map fst entries)"
    by (simp add: map_sort_key comp_def Name_named)
  have d: "distinct (map Name ?rs)"
    using assms(4) by (simp add: comp_def Name_named)
  have uniq: "ys = ?result" if "mset ys = mset ?rs" and "sorted (map Name ys)" for ys
    using d that by (rule sorted_by_key_unique)
  have order: "GetInverterInfo (l\<lparr>json_Unmarshal_inverters := \<lambda>d. Inr (entries_map entries')\<rparr>) s =
        GetInverterInfo l s" if p: "mset entries' = mset entries" for entries'
  proof -
    let ?l' = "l\<lparr>json_Unmarshal_inverters := \<lambda>d. Inr (entries_map entries')\<rparr>"
    have "envelope_received ?l' s (info_url ?l' (fronius s)) m w"
      using assms(1) by (simp add: received_other_unmarshal)
    moreover have "json_Unmarshal_inverters ?l' (Data m) = Inr (entries_map entries')"
      by simp
    ultimately have "GetInverterInfo ?l' s =
        (Returned (Inr (sort_key Name (map (named ?l') entries'))), s\<lparr>net := w\<rparr>)"
      using assms(2) by (intro GetInverterInfo_entries)
    moreover have "sort_key Name (map (named l) entries') = ?result"
    proof (rule uniq)
      show "mset (sort_key Name (map (named l) entries')) = mset ?rs"
        using p by (metis mset_map mset_sort)
      show "sorted (map Name (sort_key Name (map (named l) entries')))"
        by simp
    qed
    ultimately show ?thesis
      by (simp add: run named_other_unmarshal)
  qed
  have "sorted (map Name ?result)" and "distinct (map Name ?result)" and "mset ?result = mset ?rs"
    using assms(4) by (simp_all add: names)
  with run names uniq order show ?thesis by blast
qed

text \<open>
  C3 on a payload with the keys 3, 1, 2: the records come back as 1, 2, 3, and the same
  when the entries are visited in the order 1, 2, 3.
\<close>

theorem GetInverterInfo_sorted_by_key_witness:
  "distinct (map fst three_inverters) \<and>
   map fst three_inverters = [''3'', ''1'', ''2''] \<and>
   fst (GetInverterInfo (test_lib device_answer (entries_map three_inverters))
          (test_store device_answer (entries_map three_inverters))) =
     Returned (Inr [inverter_1\<lparr>Name := ''1'', CustomName := ''East & West''\<rparr>,
                    inverter_2\<lparr>Name := ''2''\<rparr>,
                    inverter_3\<lparr>Name := ''3'', CustomName := ''&''\<rparr>]) \<and>
   mset [(''1'', inverter_1), (''2'', inverter_2), (''3'', inverter_3)] = mset three_inverters \<and>
   GetInverterInfo
     ((test_lib device_answer (entries_map three_inverters))
        \<lparr>json_Unmarshal_inverters :=
           \<lambda>d. Inr (entries_map [(''1'', inverter_1), (''2'', inverter_2), (''3'', inverter_3)])\<rparr>)
     (test_store device_answer (entries_map three_inverters)) =
   GetInverterInfo (test_lib device_answer (entries_map three_inverters))
     (test_store device_answer (entries_map three_inverters))"
proof -
  let ?l = "test_lib device_answer (entries_map three_inverters)"
  let ?s = "test_store device_answer (entries_map three_inverters)"
  let ?m = "\<lparr>Data = ''I'', Code = 0, Reason = ''r'', UserMessage = ''u'', Timestamp = []\<rparr>"
  let ?ys = "[inverter_1\<lparr>Name := ''1'', CustomName := ''East & West''\<rparr>,
              inverter_2\<lparr>Name := ''2''\<rparr>,
              inverter_3\<lparr>Name := ''3'', CustomName := ''&''\<rparr>]"
  let ?es = "[(''1'', inverter_1), (''2'', inverter_2), (''3'', inverter_3)]"
  have keys: "map fst three_inverters = [''3'', ''1'', ''2'']"
    by (simp add: three_inverters_def)
  then have d: "distinct (map fst three_inverters)" by simp
  have u: "json_Unmarshal_inverters ?l (Data ?m) = Inr (entries_map three_inverters)"
    by (simp add: test_lib_def)
  have perm: "mset ?ys = mset (map (named ?l) three_inverters)"
    by (simp add: named_three)
  have srt: "sorted (map Name ?ys)"
    using sorted_three by simp
  have perm': "mset ?es = mset three_inverters"
    by (simp add: three_inverters_def)
  from GetInverterInfo_sorted_by_key [OF device_received_info _ u d]
  obtain result where run: "GetInverterInfo ?l ?s =
      (Returned (Inr result), ?s\<lparr>net := [get_request (info_url ?l (fronius ?s))]\<rparr>)"
    and uniq: "\<forall>ys. mset ys = mset (map (named ?l) three_inverters) \<and> sorted (map Name ys) \<longrightarrow>
        ys = result"
    and order: "\<forall>entries'. mset entries' = mset three_inverters \<longrightarrow>
        GetInverterInfo (?l\<lparr>json_Unmarshal_inverters := \<lambda>d. Inr (entries_map entries')\<rparr>) ?s =
        GetInverterInfo ?l ?s"
    by auto
  from uniq perm srt have "?ys = result" by blast
  with run have a: "fst (GetInverterInfo ?l ?s) = Returned (Inr ?ys)" by simp
  from order perm' have b: "GetInverterInfo
      (?l\<lparr>json_Unmarshal_inverters := \<lambda>d. Inr (entries_map ?es)\<rparr>) ?s = GetInverterInfo ?l ?s"
    by blast
  from d keys a perm' b show ?thesis by (simp only: simp_thms)
qed

text \<open>
  C4. When the inventory call returns devices whose label values are valid UTF-8 (as
  every string is that Go's JSON decoder returns) and whose keys are distinct (as the
  keys of a map are), \<open>collectInverters\<close> returns their keys and has sent, for every
  device in turn, the info record followed by ten status records. For every device of
  the inventory, the status records labelled with its key among all that \<open>Collect\<close> sent
  in the collection are exactly these ten: one per entry of \<open>StatusCodes\<close> and in that
  order, each a gauge of the status descriptor; the record of the decoded status has the
  value 1 and it is the only one, the other nine have the value 0, whatever the raw
  status code is.
\<close>

theorem status_indicators_one_of_ten:
  assumes "GetInverterInfo l (st s) = (Returned (Inr invs), st1)"
    and "list_all labels_valid invs" and "distinct (map Name invs)" and "d \<in> set invs"
  shows "collectInverters l newCollector s =
           Returned (map Name invs,
             s\<lparr>st := st1,
                ch := ch s @ concat (map (\<lambda>i. info_metric i # map (status_metric i) StatusCodes) invs)\<rparr>) \<and>
         (\<exists>s'. Collect l newCollector s = Returned s' \<and>
               filter (\<lambda>m. desc m = inverterStatus newCollector \<and> hd (labelValues m) = Name d)
                 (drop (length (ch s)) (ch s')) = map (status_metric d) StatusCodes) \<and>
         status_loop newCollector d StatusCodes s =
           s\<lparr>ch := ch s @ map (status_metric d) StatusCodes\<rparr> \<and>
         snd (inverter_loop newCollector invs ids s) =
           s\<lparr>ch := ch s @ concat (map (\<lambda>i. info_metric i # map (status_metric i) StatusCodes) invs)\<rparr> \<and>
         length (map (status_metric d) StatusCodes) = 10 \<and>
         map (\<lambda>m. (desc m, valType m, hd (labelValues m))) (map (status_metric d) StatusCodes) =
           replicate 10 (inverterStatus newCollector, GaugeValue, Name d) \<and>
         map val (map (status_metric d) StatusCodes) =
           map (\<lambda>status. if StatusCode_String (StatusCode d) = status then 1 else 0) StatusCodes \<and>
         length (filter (\<lambda>m. val m = 1) (map (status_metric d) StatusCodes)) = 1 \<and>
         length (filter (\<lambda>m. val m = 0) (map (status_metric d) StatusCodes)) = 9"
proof -
  have v: "ValidString (Name d)"
    using assms(2,4) by (auto simp: list_all_iff labels_valid_def)
  have ci: "collectInverters l newCollector s =
           Returned (map Name invs,
             s\<lparr>st := st1,
                ch := ch s @ concat (map (\<lambda>i. info_metric i # map (status_metric i) StatusCodes) invs)\<rparr>)"
    using collectInverters_ok [OF assms(1,2)] by (simp add: inventory_metrics_def [abs_def])
  from Collect_inventory_ok [OF assms(1,2)]
  obtain s' where c: "Collect l newCollector s = Returned s'"
    and sent: "ch s' = ch s @ concat (map inventory_metrics invs) @
        concat (map (detail_metrics l) (detail_calls l (map Name invs) st1))"
    by blast
  have "filter (is_status_of d) (drop (length (ch s)) (ch s')) = map (status_metric d) StatusCodes"
    using assms(3,4) by (simp add: sent status_filter_concat status_filter_details)
  then have f: "filter (\<lambda>m. desc m = inverterStatus newCollector \<and> hd (labelValues m) = Name d)
      (drop (length (ch s)) (ch s')) = map (status_metric d) StatusCodes"
    by (simp add: is_status_of_def [abs_def])
  have a: "status_loop newCollector d StatusCodes s =
           s\<lparr>ch := ch s @ map (status_metric d) StatusCodes\<rparr>"
    using v ValidString_ToLower_StatusCodes by (rule status_loop_emits)
  have b: "snd (inverter_loop newCollector invs ids s) =
           s\<lparr>ch := ch s @ concat (map (\<lambda>i. info_metric i # map (status_metric i) StatusCodes) invs)\<rparr>"
    using assms(2) by (simp add: inverter_loop_emits inventory_metrics_def [abs_def])
  have k: "length (map (status_metric d) StatusCodes) = 10"
    by (simp add: StatusCodes_facts)
  have e: "map (\<lambda>m. (desc m, valType m, hd (labelValues m))) (map (status_metric d) StatusCodes) =
           replicate 10 (inverterStatus newCollector, GaugeValue, Name d)"
    by (simp add: StatusCodes_def status_metric_def numeral_eq_Suc)
  from c f have cf: "\<exists>s'. Collect l newCollector s = Returned s' \<and>
               filter (\<lambda>m. desc m = inverterStatus newCollector \<and> hd (labelValues m) = Name d)
                 (drop (length (ch s)) (ch s')) = map (status_metric d) StatusCodes"
    by blast
  from ci cf a b k e status_values [of d] status_one_hot [of d] show ?thesis
    by (simp only: simp_thms)
qed

text \<open>
  C4 on an inventory of two devices: \<open>collectInverters\<close> sends twenty-two records, and
  the status records of the device \<open>2\<close>, whose raw status code 14 decodes to the
  catch-all, are the ten with \<open>invalid\<close> at 1.
\<close>

theorem status_indicators_one_of_ten_witness:
  "fst (GetInverterInfo (test_lib device_answer (entries_map two_inverters))
         (st (test_state device_answer []))) =
     Returned (Inr [inverter_1\<lparr>Name := ''1'', CustomName := ''East & West''\<rparr>,
                    inverter_2\<lparr>Name := ''2''\<rparr>]) \<and>
   list_all labels_valid [inverter_1\<lparr>Name := ''1'', CustomName := ''East & West''\<rparr>,
                          inverter_2\<lparr>Name := ''2''\<rparr>] \<and>
   distinct (map Name [inverter_1\<lparr>Name := ''1'', CustomName := ''East & West''\<rparr>,
                       inverter_2\<lparr>Name := ''2''\<rparr>]) \<and>
   StatusCode (inverter_2\<lparr>Name := ''2''\<rparr>) = 14 \<and>
   (\<exists>ids s1. collectInverters (test_lib device_answer (entries_map two_inverters)) newCollector
                (test_state device_answer []) = Returned (ids, s1) \<and>
              ids = [''1'', ''2''] \<and> length (ch s1) = 22) \<and>
   (\<exists>s'. Collect (test_lib device_answer (entries_map two_inverters)) newCollector
            (test_state device_answer []) = Returned s' \<and>
         map (\<lambda>m. (labelValues m, val m))
           (filter (\<lambda>m. desc m = inverterStatus newCollector \<and> hd (labelValues m) = ''2'') (ch s')) =
         [([''2'', ''startup''], 0), ([''2'', ''running''], 0), ([''2'', ''standby''], 0),
          ([''2'', ''bootloading''], 0), ([''2'', ''error''], 0), ([''2'', ''idle''], 0),
          ([''2'', ''ready''], 0), ([''2'', ''sleeping''], 0), ([''2'', ''unknown''], 0),
          ([''2'', ''invalid''], 1)])"
proof -
  let ?l = "test_lib device_answer (entries_map two_inverters)"
  let ?s = "test_state device_answer []"
  let ?d1 = "inverter_1\<lparr>Name := ''1'', CustomName := ''East & West''\<rparr>"
  let ?d2 = "inverter_2\<lparr>Name := ''2''\<rparr>"
  let ?st1 = "(test_store device_answer [])\<lparr>net :=
      [get_request ''/solar_api/v1//GetInverterInfo.cgi?DeviceClass=System&'']\<rparr>"
  have g: "GetInverterInfo ?l (st ?s) = (Returned (Inr [?d1, ?d2]), ?st1)"
    using two_inventory [of "[]"] by (simp add: test_state_def)
  have v: "list_all labels_valid [?d1, ?d2]"
    by (simp add: labels_valid_def inverter_1_def inverter_2_def byte_def)
  have dn: "distinct (map Name [?d1, ?d2])" by simp
  have sc: "StatusCode ?d2 = 14" by (simp add: inverter_2_def)
  have m: "?d2 \<in> set [?d1, ?d2]" by simp
  have st: "StatusCode_String 14 = ''INVALID''"
    by (simp add: StatusCode_String_def StatusCode_names)
  have e0: "ch ?s = []" by (simp add: test_state_def)
  note inst = status_indicators_one_of_ten [OF g v dn m]
  from inst have ci: "\<exists>ids s1. collectInverters ?l newCollector ?s = Returned (ids, s1) \<and>
      ids = [''1'', ''2''] \<and> length (ch s1) = 22"
    by (simp add: e0 StatusCodes_facts)
  from inst obtain s' where c: "Collect ?l newCollector ?s = Returned s'"
    and "filter (\<lambda>m. desc m = inverterStatus newCollector \<and> hd (labelValues m) = Name ?d2)
          (drop (length (ch ?s)) (ch s')) = map (status_metric ?d2) StatusCodes"
    by blast
  then have "map (\<lambda>m. (labelValues m, val m))
      (filter (\<lambda>m. desc m = inverterStatus newCollector \<and> hd (labelValues m) = ''2'') (ch s')) =
      map (\<lambda>status. ([''2'', ToLower status], if ''INVALID'' = status then 1 else 0)) StatusCodes"
    by (simp add: e0 status_metric_def sc st inverter_2_def comp_def)
  also have "\<dots> = [([''2'', ''startup''], 0), ([''2'', ''running''], 0), ([''2'', ''standby''], 0),
      ([''2'', ''bootloading''], 0), ([''2'', ''error''], 0), ([''2'', ''idle''], 0),
      ([''2'', ''ready''], 0), ([''2'', ''sleeping''], 0), ([''2'', ''unknown''], 0),
      ([''2'', ''invalid''], 1::real)]"
    using ToLower_StatusCodes by (simp add: StatusCodes_def StatusCode_names)
  finally have "\<exists>s'. Collect ?l newCollector ?s = Returned s' \<and>
         map (\<lambda>m. (labelValues m, val m))
           (filter (\<lambda>m. desc m = inverterStatus newCollector \<and> hd (labelValues m) = ''2'') (ch s')) =
         [([''2'', ''startup''], 0), ([''2'', ''running''], 0), ([''2'', ''standby''], 0),
          ([''2'', ''bootloading''], 0), ([''2'', ''error''], 0), ([''2'', ''idle''], 0),
          ([''2'', ''ready''], 0), ([''2'', ''sleeping''], 0), ([''2'', ''unknown''], 0),
          ([''2'', ''invalid''], 1)]"
    using c by simp
  with ci g v dn sc show ?thesis by (simp only: simp_thms fst_conv)
qed

text \<open>
  C5. The loop of \<open>GetInverterInfo\<close> assigns through every pointer of the decoded mapping
  without a nil check (api.go, \<open>inverter.Name = name\<close>). On an inventory whose payload
  holds a \<open>null\<close> entry beside a well-formed one, the call panics, nothing recovers the
  panic, and \<open>Collect\<close> does not return: no record is sent, not even for the well-formed
  device. (For every inventory call that returns, \<open>Collect_sends\<close> above shows the
  behaviour the claim describes.)
\<close>

theorem Collect_panics_on_null_entry:
  "fst (GetInverterInfo (test_lib device_answer null_entry_inventory)
         (st (test_state device_answer []))) = Panicked nil_dereference \<and>
   collectInverters (test_lib device_answer null_entry_inventory) newCollector
     (test_state device_answer []) = Panicked nil_dereference \<and>
   Collect (test_lib device_answer null_entry_inventory) newCollector
     (test_state device_answer []) = Panicked nil_dereference"
proof -
  have g: "fst (GetInverterInfo (test_lib device_answer null_entry_inventory)
         (st (test_state device_answer []))) = Panicked nil_dereference"
    by (simp add: client_defs test_defs null_entry_inventory_def)
  then have c: "collectInverters (test_lib device_answer null_entry_inventory) newCollector
     (test_state device_answer []) = Panicked nil_dereference"
    by (auto simp: collectInverters_def split: prod.splits)
  then have "Collect (test_lib device_answer null_entry_inventory) newCollector
     (test_state device_answer []) = Panicked nil_dereference"
    by (simp add: Collect_def)
  with g c show ?thesis by (simp only: simp_thms)
qed

text \<open>
  C6, as amended. \<open>GetInverterRealtimeCommonData\<close> fails with the decode error exactly
  where the JSON decoder refuses the payload: the error's text is \<open>unable to parse
  inverter common data: \<close> followed by the decoder's text, and it wraps the decoder's
  error. A payload the decoder accepts is returned as the record it decoded, and an
  error of the fetch is passed on. The code has no check of the payload's shape beside
  the decoder; when the request is answered with status code 0, the result is what the
  decoder makes of the envelope's \<open>Data\<close>.
\<close>

theorem common_data_decode_error:
  "(GetRealtimeInverterRealtimeData l ''Device'' ''CommonInverterData'' deviceID s = (Inr data, s') \<and>
    json_Unmarshal_common l data = Inl err \<longrightarrow>
      (\<exists>e. GetInverterRealtimeCommonData l deviceID s = (Inl e, s') \<and>
           Error_text e = ''unable to parse inverter common data: '' @ Error_text err \<and>
           Unwrap e = Some err \<and>
           e = WrapError (''unable to parse inverter common data: '' @ Error_text err) err)) \<and>
   (GetRealtimeInverterRealtimeData l ''Device'' ''CommonInverterData'' deviceID s = (Inr data, s') \<and>
    json_Unmarshal_common l data = Inr commonData \<longrightarrow>
      GetInverterRealtimeCommonData l deviceID s = (Inr commonData, s')) \<and>
   (GetRealtimeInverterRealtimeData l ''Device'' ''CommonInverterData'' deviceID s = (Inl err, s') \<longrightarrow>
      GetInverterRealtimeCommonData l deviceID s = (Inl err, s')) \<and>
   (envelope_received l s (realtime_url l (fronius s) ''Device'' ''CommonInverterData'' deviceID) m w \<and>
    Code m = 0 \<longrightarrow>
      GetInverterRealtimeCommonData l deviceID s =
        (case json_Unmarshal_common l (Data m) of
           Inl err \<Rightarrow>
             Inl (WrapError (''unable to parse inverter common data: '' @ Error_text err) err)
         | Inr commonData \<Rightarrow> Inr commonData,
         s\<lparr>net := w\<rparr>))"
proof -
  have a: "(GetRealtimeInverterRealtimeData l ''Device'' ''CommonInverterData'' deviceID s = (Inr data, s') \<and>
    json_Unmarshal_common l data = Inl err \<longrightarrow>
      (\<exists>e. GetInverterRealtimeCommonData l deviceID s = (Inl e, s') \<and>
           Error_text e = ''unable to parse inverter common data: '' @ Error_text err \<and>
           Unwrap e = Some err \<and>
           e = WrapError (''unable to parse inverter common data: '' @ Error_text err) err)) \<and>
   (GetRealtimeInverterRealtimeData l ''Device'' ''CommonInverterData'' deviceID s = (Inr data, s') \<and>
    json_Unmarshal_common l data = Inr commonData \<longrightarrow>
      GetInverterRealtimeCommonData l deviceID s = (Inr commonData, s')) \<and>
   (GetRealtimeInverterRealtimeData l ''Device'' ''CommonInverterData'' deviceID s = (Inl err, s') \<longrightarrow>
      GetInverterRealtimeCommonData l deviceID s = (Inl err, s'))"
    by (simp add: GetInverterRealtimeCommonData_def Errorf_w_def)
  have b: "GetInverterRealtimeCommonData l deviceID s =
        (case json_Unmarshal_common l (Data m) of
           Inl err \<Rightarrow>
             Inl (WrapError (''unable to parse inverter common data: '' @ Error_text err) err)
         | Inr commonData \<Rightarrow> Inr commonData,
         s\<lparr>net := w\<rparr>)"
    if "envelope_received l s (realtime_url l (fronius s) ''Device'' ''CommonInverterData'' deviceID) m w"
      and "Code m = 0"
    using GetRealtime_received [OF that(1)] that(2)
    by (simp add: Msg_Error_text GetInverterRealtimeCommonData_def Errorf_w_def split: sum.splits)
  from a b show ?thesis by blast
qed

text \<open>
  C6 on a device that sends a payload the decoder refuses, on one that sends a
  well-formed one, and on one that cannot be reached.
\<close>

theorem common_data_decode_error_witness:
  "fst (GetRealtimeInverterRealtimeData (test_lib misshapen_answer []) ''Device''
         ''CommonInverterData'' ''1'' (test_store misshapen_answer [])) = Inr ''X'' \<and>
   json_Unmarshal_common (test_lib misshapen_answer []) ''X'' = Inl (ErrorString ''cannot unmarshal'') \<and>
   fst (GetInverterRealtimeCommonData (test_lib misshapen_answer []) ''1''
         (test_store misshapen_answer [])) =
     Inl (WrapError ''unable to parse inverter common data: cannot unmarshal''
            (ErrorString ''cannot unmarshal'')) \<and>
   fst (GetRealtimeInverterRealtimeData (test_lib device_answer []) ''Device''
         ''CommonInverterData'' ''1'' (test_store device_answer [])) = Inr ''C'' \<and>
   json_Unmarshal_common (test_lib device_answer []) ''C'' = Inr common_1 \<and>
   fst (GetInverterRealtimeCommonData (test_lib device_answer []) ''1''
         (test_store device_answer [])) = Inr common_1 \<and>
   fst (GetRealtimeInverterRealtimeData (test_lib device_answer []) ''Device''
         ''CommonInverterData'' ''2'' (test_store device_answer [])) =
     Inl (ErrorString ''context deadline exceeded'') \<and>
   fst (GetInverterRealtimeCommonData (test_lib device_answer []) ''2''
         (test_store device_answer [])) = Inl (ErrorString ''context deadline exceeded'') \<and>
   envelope_received (test_lib misshapen_answer []) (test_store misshapen_answer [])
     (realtime_url (test_lib misshapen_answer []) (fronius (test_store misshapen_answer []))
        ''Device'' ''CommonInverterData'' ''1'')
     \<lparr>Data = ''X'', Code = 0, Reason = ''r'', UserMessage = ''u'', Timestamp = []\<rparr>
     [get_request (realtime_url (test_lib misshapen_answer []) (fronius (test_store misshapen_answer []))
        ''Device'' ''CommonInverterData'' ''1'')] \<and>
   GetInverterRealtimeCommonData (test_lib misshapen_answer []) ''1'' (test_store misshapen_answer []) =
     (Inl (WrapError ''unable to parse inverter common data: cannot unmarshal''
             (ErrorString ''cannot unmarshal'')),
      (test_store misshapen_answer [])\<lparr>net :=
        [get_request (realtime_url (test_lib misshapen_answer []) (fronius (test_store misshapen_answer []))
           ''Device'' ''CommonInverterData'' ''1'')]\<rparr>)"
proof -
  let ?l = "test_lib misshapen_answer []" and ?s = "test_store misshapen_answer []"
  let ?l' = "test_lib device_answer []" and ?s' = "test_store device_answer []"
  obtain s1 where r: "GetRealtimeInverterRealtimeData ?l ''Device'' ''CommonInverterData'' ''1'' ?s =
      (Inr ''X'', s1)"
    using misshapen_common [of "[]"]
    by (cases "GetRealtimeInverterRealtimeData ?l ''Device'' ''CommonInverterData'' ''1'' ?s") simp
  have u: "json_Unmarshal_common ?l ''X'' = Inl (ErrorString ''cannot unmarshal'')"
    by (simp add: test_lib_def)
  obtain s2 where r': "GetRealtimeInverterRealtimeData ?l' ''Device'' ''CommonInverterData'' ''1'' ?s' =
      (Inr ''C'', s2)"
    using device_1_common [of "[]"]
    by (cases "GetRealtimeInverterRealtimeData ?l' ''Device'' ''CommonInverterData'' ''1'' ?s'") simp
  have u': "json_Unmarshal_common ?l' ''C'' = Inr common_1"
    by (simp add: test_lib_def)
  have "fst (GetRealtimeInverterRealtimeData ?l' ''Device'' ''CommonInverterData'' ''2'' ?s') =
      Inl (ErrorString ''context deadline exceeded'')"
    by (simp add: client_defs test_defs)
  then obtain s3 where r'': "GetRealtimeInverterRealtimeData ?l' ''Device'' ''CommonInverterData''
      ''2'' ?s' = (Inl (ErrorString ''context deadline exceeded''), s3)"
    by (cases "GetRealtimeInverterRealtimeData ?l' ''Device'' ''CommonInverterData'' ''2'' ?s'") simp
  from common_data_decode_error [of ?l "''1''" ?s "''X''" s1 "ErrorString ''cannot unmarshal''"] r u
  have a: "fst (GetInverterRealtimeCommonData ?l ''1'' ?s) =
     Inl (WrapError ''unable to parse inverter common data: cannot unmarshal''
            (ErrorString ''cannot unmarshal''))"
    by simp
  from common_data_decode_error [of ?l' "''1''" ?s' "''C''" s2 _ common_1] r' u'
  have b: "fst (GetInverterRealtimeCommonData ?l' ''1'' ?s') = Inr common_1"
    by simp
  from common_data_decode_error [of ?l' "''2''" ?s' _ s3 "ErrorString ''context deadline exceeded''"] r''
  have c: "fst (GetInverterRealtimeCommonData ?l' ''2'' ?s') =
      Inl (ErrorString ''context deadline exceeded'')"
    by simp
  let ?m = "\<lparr>Data = ''X'', Code = 0, Reason = ''r'', UserMessage = ''u'', Timestamp = []\<rparr>"
  let ?w = "[get_request (realtime_url ?l (fronius ?s) ''Device'' ''CommonInverterData'' ''1'')]"
  have e: "envelope_received ?l ?s (realtime_url ?l (fronius ?s) ''Device'' ''CommonInverterData'' ''1'')
      ?m ?w"
    by (simp add: envelope_received_def newRequest_def test_defs StatusOK_def get_request_def
        realtime_url_def)
  from common_data_decode_error [where l = ?l and s = ?s and deviceID = "''1''" and m = ?m and w = ?w] e
  have d: "GetInverterRealtimeCommonData ?l ''1'' ?s =
     (Inl (WrapError ''unable to parse inverter common data: cannot unmarshal''
             (ErrorString ''cannot unmarshal'')), ?s\<lparr>net := ?w\<rparr>)"
    by (simp add: test_lib_def)
  from r u a r' u' b r'' c e d show ?thesis by (simp only: simp_thms fst_conv)
qed

text \<open>
  C6 as the spec states it fails: the payload \<open>{}\<close> has none of the fields of the common
  data, Go's decoder accepts it, and the result is the all-zero record and no error.
\<close>

theorem common_data_empty_object_accepted:
  "fst (GetRealtimeInverterRealtimeData (test_lib empty_object_answer []) ''Device''
         ''CommonInverterData'' ''1'' (test_store empty_object_answer [])) = Inr ''{}'' \<and>
   fst (GetInverterRealtimeCommonData (test_lib empty_object_answer []) ''1''
         (test_store empty_object_answer [])) = Inr zero_common \<and>
   Value (TotalEnergy zero_common) = 0 \<and> Unit (TotalEnergy zero_common) = []"
  by (simp add: client_defs test_defs zero_common_def measured_def)

text \<open>
  C7. When the common data of a device was fetched, the first record that
  \<open>collectCommonInverterData\<close> sends is the total energy: a counter of the descriptor
  \<open>inverter_yield_total\<close>, labelled with the device key, whose value is the
  floating-point quotient of \<open>TOTAL_ENERGY\<close> by 1000, that is the \<open>float64\<close> nearest to
  the exact quotient. For 234611600 this is the \<open>float64\<close> nearest to 234611.6, which is
  what the literal \<open>234611.6\<close> denotes. The three records after it are gauges.
\<close>

theorem total_energy_counter:
  assumes "GetInverterRealtimeCommonData l deviceID (st s) = (Inr data, st1)"
    and "ValidString deviceID"
  shows "\<exists>m rest. ch (collectCommonInverterData l newCollector deviceID s) = ch s @ m # rest \<and>
           fqName (desc m) = ''inverter_yield_total'' \<and>
           variableLabels (desc m) = [''device_id''] \<and>
           labelValues m = [deviceID] \<and>
           valType m = CounterValue \<and>
           val m = float64_div l (Value (TotalEnergy data)) 1000 \<and>
           val m = round64 l (Value (TotalEnergy data) / 1000) \<and>
           (Value (TotalEnergy data) = 234611600 \<longrightarrow> val m = round64 l 234611.6) \<and>
           length rest = 3 \<and> list_all (\<lambda>g. valType g = GaugeValue) rest"
proof -
  have "ch (collectCommonInverterData l newCollector deviceID s) =
      ch s @ common_metrics l deviceID data"
    using assms by (simp add: collectCommon_ok)
  then show ?thesis
    by (simp add: common_metrics_def newCollector_def float64_div_def)
qed

text \<open>C7 on the device \<open>1\<close>, whose total energy is 234611600 Wh (the rounding of the
  fixture is the identity).\<close>

theorem total_energy_counter_witness:
  "fst (GetInverterRealtimeCommonData (test_lib device_answer []) ''1''
         (st (test_state device_answer []))) = Inr common_1 \<and>
   ValidString ''1'' \<and>
   Value (TotalEnergy common_1) = 234611600 \<and>
   map (\<lambda>m. (fqName (desc m), valType m, val m, labelValues m))
     (take 1 (ch (collectCommonInverterData (test_lib device_answer []) newCollector ''1''
                   (test_state device_answer [])))) =
     [(''inverter_yield_total'', CounterValue, 234611.6, [''1''])]"
proof -
  let ?l = "test_lib device_answer []" and ?s = "test_state device_answer []"
  have v: "ValidString ''1''"
    by (simp add: byte_def)
  have e: "Value (TotalEnergy common_1) = 234611600"
    by (simp add: common_1_def measured_def)
  have r: "round64 ?l = (\<lambda>x. x)"
    by (simp add: test_lib_def)
  have g: "GetInverterRealtimeCommonData ?l ''1'' (st ?s) =
     (Inr common_1,
      (test_store device_answer [])\<lparr>net := [get_request (realtime_url ?l
         (fronius (test_store device_answer [])) ''Device'' ''CommonInverterData'' ''1'')]\<rparr>)"
    using device_1_common_data [of "[]"] by (simp add: test_state_def)
  from total_energy_counter [OF g v]
  obtain m rest where "ch (collectCommonInverterData ?l newCollector ''1'' ?s) = ch ?s @ m # rest"
    and "fqName (desc m) = ''inverter_yield_total''" and "labelValues m = [''1'']"
    and "valType m = CounterValue" and "val m = round64 ?l 234611.6"
    using e by auto
  then have "map (\<lambda>m. (fqName (desc m), valType m, val m, labelValues m))
     (take 1 (ch (collectCommonInverterData ?l newCollector ''1'' ?s))) =
     [(''inverter_yield_total'', CounterValue, 234611.6, [''1''])]"
    by (simp add: r test_state_def)
  with g v e show ?thesis by simp
qed

text \<open>
  C8. When the inventory request is answered with status code 0, every record that
  \<open>GetInverterInfo\<close> returns is an entry of the payload with its key as \<open>Name\<close> and with
  \<open>html.UnescapeString\<close> applied to its \<open>CustomName\<close>, and the info record that \<open>Collect\<close>
  sends for the entry carries that unescaped name as its third label value
  (\<open>device_name\<close>). \<open>html.UnescapeString\<close> is the standard library's and a parameter
  here: where it maps \<open>&amp;\<close> to \<open>&\<close>, as Go's does, the label value is \<open>&\<close>.
\<close>

theorem CustomName_unescaped:
  assumes "envelope_received l (st s) (info_url l (fronius (st s))) m w" and "Code m = 0"
    and "json_Unmarshal_inverters l (Data m) = Inr (entries_map entries)"
    and "list_all labels_valid (map (named l) entries)"
    and "(k, raw) \<in> set entries"
  shows "\<exists>result s'.
           GetInverterInfo l (st s) = (Returned (Inr result), (st s)\<lparr>net := w\<rparr>) \<and>
           set result = named l ` set entries \<and>
           named l (k, raw) \<in> set result \<and>
           Name (named l (k, raw)) = k \<and>
           CustomName (named l (k, raw)) = html_UnescapeString l (CustomName raw) \<and>
           Collect l newCollector s = Returned s' \<and>
           \<lparr>desc = inverterInfo newCollector, valType = GaugeValue, val = 1,
            labelValues = [k, fmt_d (Dt raw), html_UnescapeString l (CustomName raw),
                           UniqueID raw]\<rparr> \<in> set (ch s') \<and>
           (CustomName raw = ''&amp;'' \<and> html_UnescapeString l ''&amp;'' = ''&'' \<longrightarrow>
              \<lparr>desc = inverterInfo newCollector, valType = GaugeValue, val = 1,
               labelValues = [k, fmt_d (Dt raw), ''&'', UniqueID raw]\<rparr> \<in> set (ch s'))"
proof -
  let ?result = "sort_key Name (map (named l) entries)"
  have run: "GetInverterInfo l (st s) = (Returned (Inr ?result), (st s)\<lparr>net := w\<rparr>)"
    using assms(1-3) by (rule GetInverterInfo_entries)
  have mem: "set ?result = named l ` set entries"
    by simp
  with assms(5) have here: "named l (k, raw) \<in> set ?result"
    by blast
  have fields: "Name (named l (k, raw)) = k"
    "CustomName (named l (k, raw)) = html_UnescapeString l (CustomName raw)"
    by (simp_all add: named_def)
  have "list_all labels_valid ?result"
    using assms(4) by (simp only: list_all_sort_key)
  with run obtain s' where c: "Collect l newCollector s = Returned s'"
    and sent: "ch s' = ch s @ concat (map inventory_metrics ?result) @
        concat (map (detail_metrics l) (detail_calls l (map Name ?result) ((st s)\<lparr>net := w\<rparr>)))"
    using Collect_inventory_ok by blast
  have "info_metric (named l (k, raw)) \<in> set (ch s')"
    using info_metric_sent [OF here] by (simp add: sent)
  then have label: "\<lparr>desc = inverterInfo newCollector, valType = GaugeValue, val = 1,
            labelValues = [k, fmt_d (Dt raw), html_UnescapeString l (CustomName raw),
                           UniqueID raw]\<rparr> \<in> set (ch s')"
    by (simp add: info_metric_def named_def)
  then have amp: "\<lparr>desc = inverterInfo newCollector, valType = GaugeValue, val = 1,
               labelValues = [k, fmt_d (Dt raw), ''&'', UniqueID raw]\<rparr> \<in> set (ch s')"
    if "CustomName raw = ''&amp;''" and "html_UnescapeString l ''&amp;'' = ''&''"
    using that by simp
  from run mem here fields c label amp show ?thesis
    by blast
qed

text \<open>
  C8 on a device named \<open>East &amp; West\<close> and one named \<open>&amp;\<close>: the label values are
  \<open>East & West\<close> and \<open>&\<close>.
\<close>

theorem CustomName_unescaped_witness:
  "envelope_received (test_lib device_answer (entries_map three_inverters))
     (st (test_state device_answer []))
     (info_url (test_lib device_answer (entries_map three_inverters))
        (fronius (st (test_state device_answer []))))
     \<lparr>Data = ''I'', Code = 0, Reason = ''r'', UserMessage = ''u'', Timestamp = []\<rparr>
     [get_request (info_url (test_lib device_answer (entries_map three_inverters))
        (fronius (st (test_state device_answer []))))] \<and>
   list_all labels_valid (map (named (test_lib device_answer (entries_map three_inverters)))
     three_inverters) \<and>
   (''1'', inverter_1) \<in> set three_inverters \<and>
   CustomName inverter_1 = ''East &amp; West'' \<and>
   (''3'', inverter_3) \<in> set three_inverters \<and>
   CustomName inverter_3 = ''&amp;'' \<and>
   html_UnescapeString (test_lib device_answer (entries_map three_inverters)) ''&amp;'' = ''&'' \<and>
   (\<exists>s'. Collect (test_lib device_answer (entries_map three_inverters)) newCollector
            (test_state device_answer []) = Returned s' \<and>
         \<lparr>desc = inverterInfo newCollector, valType = GaugeValue, val = 1,
          labelValues = [''1'', ''232'', ''East & West'', ''1234567'']\<rparr> \<in> set (ch s') \<and>
         \<lparr>desc = inverterInfo newCollector, valType = GaugeValue, val = 1,
          labelValues = [''3'', ''99'', ''&'', ''555'']\<rparr> \<in> set (ch s'))"
proof -
  let ?l = "test_lib device_answer (entries_map three_inverters)"
  let ?s = "test_state device_answer []"
  let ?m = "\<lparr>Data = ''I'', Code = 0, Reason = ''r'', UserMessage = ''u'', Timestamp = []\<rparr>"
  let ?w = "[get_request (info_url ?l (fronius (st ?s)))]"
  have r: "envelope_received ?l (st ?s) (info_url ?l (fronius (st ?s))) ?m ?w"
    using device_received_info [of "entries_map three_inverters"]
    by (simp add: test_state_def test_store_def)
  have u: "json_Unmarshal_inverters ?l (Data ?m) = Inr (entries_map three_inverters)"
    by (simp add: test_lib_def)
  have v: "list_all labels_valid (map (named ?l) three_inverters)"
    by (simp add: named_three labels_valid_def inverter_1_def inverter_2_def inverter_3_def
        byte_def)
  have e1: "(''1'', inverter_1) \<in> set three_inverters"
    and e3: "(''3'', inverter_3) \<in> set three_inverters"
    by (simp_all add: three_inverters_def)
  have n: "CustomName inverter_1 = ''East &amp; West''" "Dt inverter_1 = 232"
    "UniqueID inverter_1 = ''1234567''" "html_UnescapeString ?l = unescape_amp"
    "CustomName inverter_3 = ''&amp;''" "Dt inverter_3 = 99" "UniqueID inverter_3 = ''555''"
    by (simp_all add: inverter_1_def inverter_3_def test_lib_def)
  have amp: "html_UnescapeString ?l ''&amp;'' = ''&''"
    by (simp add: n unescape_examples)
  from CustomName_unescaped [OF r _ u v e1]
  obtain s1 where c1: "Collect ?l newCollector ?s = Returned s1"
    and "\<lparr>desc = inverterInfo newCollector, valType = GaugeValue, val = 1,
          labelValues = [''1'', fmt_d (Dt inverter_1),
            html_UnescapeString ?l (CustomName inverter_1), UniqueID inverter_1]\<rparr> \<in> set (ch s1)"
    by auto
  then have m1: "\<lparr>desc = inverterInfo newCollector, valType = GaugeValue, val = 1,
          labelValues = [''1'', ''232'', ''East & West'', ''1234567'']\<rparr> \<in> set (ch s1)"
    by (simp add: n fmt_d_232 unescape_examples)
  from CustomName_unescaped [OF r _ u v e3] n(5) amp
  obtain s3 where c3: "Collect ?l newCollector ?s = Returned s3"
    and "\<lparr>desc = inverterInfo newCollector, valType = GaugeValue, val = 1,
          labelValues = [''3'', fmt_d (Dt inverter_3), ''&'', UniqueID inverter_3]\<rparr> \<in> set (ch s3)"
    by auto
  then have m3: "\<lparr>desc = inverterInfo newCollector, valType = GaugeValue, val = 1,
          labelValues = [''3'', ''99'', ''&'', ''555'']\<rparr> \<in> set (ch s3)"
    by (simp add: n fmt_d_99)
  from c1 c3 have "s3 = s1" by simp
  with c1 m1 m3 have "\<exists>s'. Collect ?l newCollector ?s = Returned s' \<and>
         \<lparr>desc = inverterInfo newCollector, valType = GaugeValue, val = 1,
          labelValues = [''1'', ''232'', ''East & West'', ''1234567'']\<rparr> \<in> set (ch s') \<and>
         \<lparr>desc = inverterInfo newCollector, valType = GaugeValue, val = 1,
          labelValues = [''3'', ''99'', ''&'', ''555'']\<rparr> \<in> set (ch s')"
    by blast
  with r v e1 e3 n(1) n(5) amp show ?thesis
    by (simp only: simp_thms)
qed

text \<open>
  C9. \<open>NewFronius\<close> stores the parsed URL with the fixed prefix \<open>solar_api/v1/\<close> joined
  to its path. No sequence of calls of the client's operations changes the client: each
  operation assigns the path and the query of a copy of the base URL. So the address
  of every request is built from the same base: with a client that records the requests
  it is given, an operation called after any sequence of calls records the request for
  the address built from the base URL the client had before them.
\<close>

theorem baseURL_immutable:
  "fronius (run_calls l cs s) = fronius s \<and>
   baseURL (fronius (run_calls l cs s)) = baseURL (fronius s) \<and>
   info_url l (fronius (run_calls l cs s)) = info_url l (fronius s) \<and>
   realtime_url l (fronius (run_calls l cs s)) scope dataCollection deviceID =
     realtime_url l (fronius s) scope dataCollection deviceID \<and>
   (NewFronius l urlString = Inr f \<longrightarrow>
      (\<exists>u. url_Parse l urlString = Inr u \<and>
           baseURL f = u\<lparr>Path := filepath_Join l (Path u) ''solar_api/v1/''\<rparr> \<and>
           Client f = http_DefaultClient l)) \<and>
   (Client (fronius r) = recording answer \<and>
    newRequest k ''GET'' (info_url k (fronius r)) = Inr req \<longrightarrow>
      net (run_calls k (ds @ [CallInverterInfo]) r) = net (run_calls k ds r) @ [req]) \<and>
   (Client (fronius r) = recording answer \<and>
    newRequest k ''GET'' (realtime_url k (fronius r) scope dataCollection deviceID) = Inr req \<longrightarrow>
      net (run_calls k (ds @ [CallRealtimeData scope dataCollection deviceID]) r) =
        net (run_calls k ds r) @ [req]) \<and>
   (Client (fronius r) = recording answer \<and>
    newRequest k ''GET'' (realtime_url k (fronius r) ''Device'' ''CommonInverterData'' deviceID) =
      Inr req \<longrightarrow>
      net (run_calls k (ds @ [CallCommonData deviceID]) r) = net (run_calls k ds r) @ [req]) \<and>
   (Client (fronius r) = recording answer \<and>
    newRequest k ''GET'' (realtime_url k (fronius r) ''Device'' ''3PInverterData'' deviceID) =
      Inr req \<longrightarrow>
      net (run_calls k (ds @ [CallThreePhaseData deviceID]) r) = net (run_calls k ds r) @ [req])"
proof -
  have inv: "fronius (run_calls l cs s) = fronius s"
    by (rule fronius_run_calls)
  have new: "\<exists>u. url_Parse l urlString = Inr u \<and>
           baseURL f = u\<lparr>Path := filepath_Join l (Path u) ''solar_api/v1/''\<rparr> \<and>
           Client f = http_DefaultClient l"
    if "NewFronius l urlString = Inr f"
    using that by (auto simp: NewFronius_def split: sum.splits)
  have same: "fronius (run_calls k ds r) = fronius r"
    by (rule fronius_run_calls)
  have a: "net (run_calls k (ds @ [CallInverterInfo]) r) = net (run_calls k ds r) @ [req]"
    if "Client (fronius r) = recording answer"
      and "newRequest k ''GET'' (info_url k (fronius r)) = Inr req"
    using that by (simp add: run_calls_append recorded_info same)
  have b: "net (run_calls k (ds @ [CallRealtimeData sc dc dev]) r) = net (run_calls k ds r) @ [req]"
    if "Client (fronius r) = recording answer"
      and "newRequest k ''GET'' (realtime_url k (fronius r) sc dc dev) = Inr req" for sc dc dev
    using that by (simp add: run_calls_append recorded_realtime same)
  have c: "net (run_calls k (ds @ [CallCommonData dev]) r) = net (run_calls k ds r) @ [req]"
    if "Client (fronius r) = recording answer"
      and "newRequest k ''GET'' (realtime_url k (fronius r) ''Device'' ''CommonInverterData'' dev) =
        Inr req" for dev
    using that by (simp add: run_calls_append snd_GetCommon recorded_realtime same)
  have d: "net (run_calls k (ds @ [CallThreePhaseData dev]) r) = net (run_calls k ds r) @ [req]"
    if "Client (fronius r) = recording answer"
      and "newRequest k ''GET'' (realtime_url k (fronius r) ''Device'' ''3PInverterData'' dev) =
        Inr req" for dev
    using that by (simp add: run_calls_append snd_GetThreePhase recorded_realtime same)
  from inv new a b [of scope dataCollection deviceID] c [of deviceID] d [of deviceID]
  show ?thesis by (simp only: simp_thms) blast
qed

text \<open>
  C9 on the recording client: the inventory request made after two other calls is made
  for the same address as the first one, and so is the common-data request made after
  three.
\<close>

theorem baseURL_immutable_witness:
  "NewFronius (test_lib device_answer []) ''inverter'' = Inr (fronius (test_store device_answer [])) \<and>
   Client (fronius (test_store device_answer [])) = recording device_answer \<and>
   newRequest (test_lib device_answer []) ''GET''
     (info_url (test_lib device_answer []) (fronius (test_store device_answer []))) =
     Inr (get_request ''/solar_api/v1//GetInverterInfo.cgi?DeviceClass=System&'') \<and>
   newRequest (test_lib device_answer []) ''GET''
     (realtime_url (test_lib device_answer []) (fronius (test_store device_answer []))
        ''Device'' ''CommonInverterData'' ''1'') =
     Inr (get_request ''/solar_api/v1//GetInverterRealtimeData.cgi?Scope=Device&DataCollection=CommonInverterData&DeviceId=1&'') \<and>
   map RequestURL
     (net (run_calls (test_lib device_answer [])
             ([CallInverterInfo, CallCommonData ''1''] @ [CallInverterInfo])
             (test_store device_answer []))) =
     [''/solar_api/v1//GetInverterInfo.cgi?DeviceClass=System&'',
      ''/solar_api/v1//GetInverterRealtimeData.cgi?Scope=Device&DataCollection=CommonInverterData&DeviceId=1&'',
      ''/solar_api/v1//GetInverterInfo.cgi?DeviceClass=System&''] \<and>
   map RequestURL
     (net (run_calls (test_lib device_answer [])
             ([CallInverterInfo, CallCommonData ''1'', CallInverterInfo] @ [CallCommonData ''1''])
             (test_store device_answer []))) =
     [''/solar_api/v1//GetInverterInfo.cgi?DeviceClass=System&'',
      ''/solar_api/v1//GetInverterRealtimeData.cgi?Scope=Device&DataCollection=CommonInverterData&DeviceId=1&'',
      ''/solar_api/v1//GetInverterInfo.cgi?DeviceClass=System&'',
      ''/solar_api/v1//GetInverterRealtimeData.cgi?Scope=Device&DataCollection=CommonInverterData&DeviceId=1&''] \<and>
   Path (baseURL (fronius (run_calls (test_lib device_answer [])
           ([CallInverterInfo, CallCommonData ''1''] @ [CallInverterInfo])
           (test_store device_answer [])))) = ''/solar_api/v1/''"
proof -
  let ?l = "test_lib device_answer []" and ?s = "test_store device_answer []"
  let ?ds = "[CallInverterInfo, CallCommonData ''1'']"
  let ?es = "[CallInverterInfo, CallCommonData ''1'', CallInverterInfo]"
  let ?req = "get_request ''/solar_api/v1//GetInverterInfo.cgi?DeviceClass=System&''"
  let ?req' = "get_request ''/solar_api/v1//GetInverterRealtimeData.cgi?Scope=Device&DataCollection=CommonInverterData&DeviceId=1&''"
  have n: "NewFronius ?l ''inverter'' = Inr (fronius ?s)"
    by (simp add: NewFronius_def test_lib_def test_store_def)
  have c: "Client (fronius ?s) = recording device_answer"
    by (simp add: test_store_def)
  have q: "newRequest ?l ''GET'' (info_url ?l (fronius ?s)) = Inr ?req"
    by (simp add: newRequest_def info_url_def test_lib_def test_store_def get_request_def)
  have q': "newRequest ?l ''GET'' (realtime_url ?l (fronius ?s) ''Device'' ''CommonInverterData'' ''1'') =
      Inr ?req'"
    by (simp add: newRequest_def realtime_url_def test_lib_def test_store_def get_request_def)
  note inst = baseURL_immutable [where k = ?l and r = ?s and ds = ?ds and req = ?req
      and answer = device_answer and l = ?l and s = ?s and cs = "?ds @ [CallInverterInfo]"]
  from inst c q have "net (run_calls ?l (?ds @ [CallInverterInfo]) ?s) = net (run_calls ?l ?ds ?s) @ [?req]"
    by blast
  then have urls: "map RequestURL (net (run_calls ?l (?ds @ [CallInverterInfo]) ?s)) =
     [''/solar_api/v1//GetInverterInfo.cgi?DeviceClass=System&'',
      ''/solar_api/v1//GetInverterRealtimeData.cgi?Scope=Device&DataCollection=CommonInverterData&DeviceId=1&'',
      ''/solar_api/v1//GetInverterInfo.cgi?DeviceClass=System&'']"
    by (simp only: recorded_two_calls) (simp add: get_request_def)
  note inst' = baseURL_immutable [where k = ?l and r = ?s and ds = ?es and req = ?req'
      and answer = device_answer and deviceID = "''1''"]
  from inst' c q' have "net (run_calls ?l (?es @ [CallCommonData ''1'']) ?s) =
      net (run_calls ?l ?es ?s) @ [?req']"
    by blast
  then have urls': "map RequestURL (net (run_calls ?l (?es @ [CallCommonData ''1'']) ?s)) =
     [''/solar_api/v1//GetInverterInfo.cgi?DeviceClass=System&'',
      ''/solar_api/v1//GetInverterRealtimeData.cgi?Scope=Device&DataCollection=CommonInverterData&DeviceId=1&'',
      ''/solar_api/v1//GetInverterInfo.cgi?DeviceClass=System&'',
      ''/solar_api/v1//GetInverterRealtimeData.cgi?Scope=Device&DataCollection=CommonInverterData&DeviceId=1&'']"
    by (simp only: recorded_three_calls) (simp add: get_request_def)
  from inst have "baseURL (fronius (run_calls ?l (?ds @ [CallInverterInfo]) ?s)) = baseURL (fronius ?s)"
    by blast
  then have p: "Path (baseURL (fronius (run_calls ?l (?ds @ [CallInverterInfo]) ?s))) = ''/solar_api/v1/''"
    by (simp only:) (simp add: test_store_def)
  from n c q q' urls urls' p show ?thesis
    by (simp only: simp_thms)
qed

text \<open>
  C10. The second label value of every status record is the status name in lower case:
  the ten records carry \<open>startup\<close> to \<open>invalid\<close> in the order of \<open>StatusCodes\<close>, the
  record with the value 1 carries the decoded status in lower case, and the catch-all
  constant \<open>INVALID\<close> appears as \<open>invalid\<close>.
\<close>

theorem status_label_lowercased:
  assumes "ValidString (Name d)"
  shows "map labelValues (drop (length (ch s)) (ch (status_loop newCollector d StatusCodes s))) =
           map (\<lambda>status. [Name d, ToLower status]) StatusCodes \<and>
         filter (\<lambda>m. val m = 1)
            (drop (length (ch s)) (ch (status_loop newCollector d StatusCodes s))) =
           [\<lparr>desc = inverterStatus newCollector, valType = GaugeValue, val = 1,
             labelValues = [Name d, ToLower (StatusCode_String (StatusCode d))]\<rparr>] \<and>
         map ToLower StatusCodes =
           [''startup'', ''running'', ''standby'', ''bootloading'', ''error'', ''idle'',
            ''ready'', ''sleeping'', ''unknown'', ''invalid''] \<and>
         StatusCodeInvalid = ''INVALID'' \<and> ToLower StatusCodeInvalid = ''invalid'' \<and>
         StatusCodeStartup = ''Startup'' \<and> ToLower StatusCodeStartup = ''startup''"
proof -
  let ?x = "StatusCode_String (StatusCode d)"
  have run: "drop (length (ch s)) (ch (status_loop newCollector d StatusCodes s)) =
        map (status_metric d) StatusCodes"
    using assms ValidString_ToLower_StatusCodes by (simp add: status_loop_emits)
  have labels: "map labelValues (map (status_metric d) StatusCodes) =
        map (\<lambda>status. [Name d, ToLower status]) StatusCodes"
    by (simp add: status_metric_def)
  have "filter (\<lambda>m. val m = 1) (map (status_metric d) StatusCodes) =
        map (status_metric d) (filter (\<lambda>y. ?x = y) StatusCodes)"
    by (simp add: filter_map comp_def status_metric_def)
  also have "\<dots> = [status_metric d ?x]"
    by (simp add: filter_eq_distinct StatusCodes_facts)
  finally have active: "filter (\<lambda>m. val m = 1) (map (status_metric d) StatusCodes) =
        [\<lparr>desc = inverterStatus newCollector, valType = GaugeValue, val = 1,
          labelValues = [Name d, ToLower ?x]\<rparr>]"
    by (simp add: status_metric_def)
  have low: "ToLower StatusCodeInvalid = ''invalid''" "ToLower StatusCodeStartup = ''startup''"
    using ToLower_StatusCodes by (simp_all add: StatusCodes_def)
  from run labels active low ToLower_StatusCodes show ?thesis
    by (simp add: StatusCode_names)
qed

text \<open>C10 on a device with the raw status code 3: the active record is labelled
  \<open>startup\<close>.\<close>

theorem status_label_lowercased_witness:
  "ValidString (Name (inverter_3\<lparr>Name := ''3''\<rparr>)) \<and>
   StatusCode_String (StatusCode (inverter_3\<lparr>Name := ''3''\<rparr>)) = ''Startup'' \<and>
   map labelValues
     (filter (\<lambda>m. val m = 1)
        (drop (length (ch (test_state device_answer [])))
           (ch (status_loop newCollector (inverter_3\<lparr>Name := ''3''\<rparr>) StatusCodes
                  (test_state device_answer []))))) =
     [[''3'', ''startup'']]"
proof -
  let ?d = "inverter_3\<lparr>Name := ''3''\<rparr>"
  have v: "ValidString (Name ?d)"
    by (simp add: byte_def)
  have st: "StatusCode_String (StatusCode ?d) = ''Startup''"
    and st': "StatusCode_String (StatusCode inverter_3) = ''Startup''"
    by (simp_all add: inverter_3_def StatusCode_String_def StatusCode_names)
  from status_label_lowercased [OF v, of "test_state device_answer []"]
  have "map labelValues
     (filter (\<lambda>m. val m = 1)
        (drop (length (ch (test_state device_answer [])))
           (ch (status_loop newCollector ?d StatusCodes (test_state device_answer []))))) =
     [[''3'', ToLower StatusCodeStartup]]"
    by (simp add: st')
  moreover from status_label_lowercased [OF v, of "test_state device_answer []"]
  have "ToLower StatusCodeStartup = ''startup''"
    by simp
  ultimately show ?thesis using v st by simp
qed

end
